theory Spec2Isabelle
  imports Complex_Main "HOL-Library.AList"
begin

section \<open>Zonal statistics: a model of \<^verbatim>\<open>rasterstats/main.py\<close>\<close>

text \<open>
  The development follows \<^verbatim>\<open>gen_zonal_stats\<close> statement by statement.  Cell values
  and coverage weights are real numbers (numpy's floating point rounding is not
  modelled).  The generator is modelled by the run that consumes it to the end, as
  \<^verbatim>\<open>zonal_stats\<close> does with \<^verbatim>\<open>list(...)\<close>: the results yielded so far, the printed
  diagnostics and the calls made to the raster are kept in the state, so that a run
  that stops with an exception still shows what was yielded before it.
\<close>

subsection \<open>Values, arrays and dictionaries\<close>

type_synonym shape = "nat \<times> nat"

text \<open>A two-dimensional numpy array: its shape and its cells in row-major order.\<close>

record 'a ndarray =
  shp :: shape
  dat :: "'a list"

text \<open>A numpy masked array: a cell whose mask bit is set is excluded.\<close>

record marray =
  mshape :: shape
  mdata :: "real list"
  mmask :: "bool list"

type_synonym affine = "real \<times> real \<times> real \<times> real \<times> real \<times> real"
type_synonym bounds = "real \<times> real \<times> real \<times> real"

text \<open>A shapely geometry: \<^verbatim>\<open>geom.type\<close>, its coordinates and \<^verbatim>\<open>geom.bounds\<close>.\<close>

record geometry =
  gtype :: string
  gcoords :: "(real \<times> real) list"
  gbounds :: bounds

datatype error =
    MemoryError
  | AssertionError
  | KeyError
  | UnboundLocalError
  | ValueError
  | InvalidStatistic
  | InvalidPercentileSpec
  | TypeError
  | OtherError string

text \<open>
  Dictionary keys are statistic names or, in categorical mode, raster values.
  \<^verbatim>\<open>PNaN\<close> is the float \<^verbatim>\<open>nan\<close> that \<^verbatim>\<open>float(np.ma.masked)\<close> gives.
\<close>

datatype key = KStr string | KNum real

datatype pyval =
    PNone
  | PInt int
  | PFloat real
  | PNaN
  | PStr string
  | PMasked marray
  | PAffine affine

text \<open>
  A Python dictionary is an association list with distinct keys; a store to an
  existing key replaces its value in place, a store to a new key appends it
  (\<^const>\<open>AList.update\<close>).  Iteration follows the list.
\<close>

type_synonym pydict = "(key \<times> pyval) list"

definition dict_of :: "(key \<times> pyval) list \<Rightarrow> pydict" where
  "dict_of ps = foldl (\<lambda>d (k, v). AList.update k v d) [] ps"

text \<open>\<^verbatim>\<open>'Point' in geom.type\<close> and \<^verbatim>\<open>s.startswith('percentile_')\<close>.\<close>

definition startswith :: "string \<Rightarrow> string \<Rightarrow> bool" where
  "startswith s p = (take (length p) s = p)"

fun str_contains :: "string \<Rightarrow> string \<Rightarrow> bool" where
  "str_contains [] p = (p = [])"
| "str_contains (c # cs) p = (startswith (c # cs) p \<or> str_contains cs p)"

subsection \<open>The numpy operations the function uses\<close>

text \<open>\<^verbatim>\<open>masked.compressed()\<close>: the values whose mask bit is clear.\<close>

definition compressed_of :: "marray \<Rightarrow> real list" where
  "compressed_of m = map fst (filter (\<lambda>(v, b). \<not> b) (zip (mdata m) (mmask m)))"

definition np_mean :: "real list \<Rightarrow> real" where
  "np_mean xs = sum_list xs / real (length xs)"

definition np_min :: "real list \<Rightarrow> real" where
  "np_min xs = fold min (tl xs) (hd xs)"

definition np_max :: "real list \<Rightarrow> real" where
  "np_max xs = fold max (tl xs) (hd xs)"

text \<open>\<^verbatim>\<open>compressed.std()\<close>: the population standard deviation, with the square root \<open>rt\<close>.\<close>

definition np_std :: "(real \<Rightarrow> real) \<Rightarrow> real list \<Rightarrow> real" where
  "np_std rt xs = rt (sum_list (map (\<lambda>x. (x - np_mean xs)\<^sup>2) xs) / real (length xs))"

text \<open>\<^verbatim>\<open>np.percentile(xs, q)\<close> with numpy's default linear interpolation.\<close>

definition np_percentile :: "real list \<Rightarrow> real \<Rightarrow> real" where
  "np_percentile xs q =
     (let ys = sort xs;
          pos = q / 100 * real (length ys - 1);
          lo = nat \<lfloor>pos\<rfloor>;
          hi = min (lo + 1) (length ys - 1)
      in ys ! lo + (pos - real lo) * (ys ! hi - ys ! lo))"

definition np_median :: "real list \<Rightarrow> real" where
  "np_median xs = np_percentile xs 50"

text \<open>\<^verbatim>\<open>np.unique(xs, return_counts=True)\<close>: the distinct values, ascending, with their counts.\<close>

definition np_unique_counts :: "real list \<Rightarrow> (real \<times> nat) list" where
  "np_unique_counts xs = map (\<lambda>k. (k, count_list xs k)) (sort (remdups xs))"

text \<open>
  Arithmetic between two arrays broadcasts an axis of length one.  \<open>bcast\<close> is the
  common shape, \<open>cell\<close> reads the cell \<open>(i, j)\<close> of an array stretched to it.
\<close>

definition bdim :: "nat \<Rightarrow> nat \<Rightarrow> nat option" where
  "bdim a b = (if a = b then Some a else if a = 1 then Some b else if b = 1 then Some a else None)"

definition bcast :: "shape \<Rightarrow> shape \<Rightarrow> shape option" where
  "bcast s t =
     (case (bdim (fst s) (fst t), bdim (snd s) (snd t)) of
        (Some r, Some c) \<Rightarrow> Some (r, c)
      | _ \<Rightarrow> None)"

definition cell :: "shape \<Rightarrow> 'a list \<Rightarrow> nat \<times> nat \<Rightarrow> 'a" where
  "cell s xs ij =
     xs ! ((if fst s = 1 then 0 else fst ij) * snd s + (if snd s = 1 then 0 else snd ij))"

definition grid :: "shape \<Rightarrow> (nat \<times> nat) list" where
  "grid s = concat (map (\<lambda>i. map (\<lambda>j. (i, j)) [0..<snd s]) [0..<fst s])"

text \<open>\<^verbatim>\<open>masked * pctcover\<close>: the products, under the mask of \<^verbatim>\<open>masked\<close>.\<close>

definition ma_times :: "marray \<Rightarrow> real ndarray \<Rightarrow> error + marray" where
  "ma_times m p =
     (case bcast (mshape m) (shp p) of
        None \<Rightarrow> Inl ValueError
      | Some s \<Rightarrow>
          Inr \<lparr>mshape = s,
               mdata = map (\<lambda>ij. cell (mshape m) (mdata m) ij * cell (shp p) (dat p) ij) (grid s),
               mmask = map (\<lambda>ij. cell (mshape m) (mmask m) ij) (grid s)\<rparr>)"

text \<open>\<^verbatim>\<open>~masked.mask * pctcover\<close>, summed over both axes: the weight on the surviving cells.\<close>

definition unmasked_weight :: "marray \<Rightarrow> real ndarray \<Rightarrow> error + real" where
  "unmasked_weight m p =
     (case bcast (mshape m) (shp p) of
        None \<Rightarrow> Inl ValueError
      | Some s \<Rightarrow>
          Inr (sum_list (map (\<lambda>ij. if cell (mshape m) (mmask m) ij then 0
                                    else cell (shp p) (dat p) ij) (grid s))))"


subsection \<open>The raster and the collaborators\<close>

datatype raster_arg = RasterPath string | RasterArray "real ndarray"

text \<open>The object that \<^verbatim>\<open>Raster(raster, affine, nodata, band_num)\<close> builds.\<close>

record rast =
  r_src :: raster_arg
  r_affine :: "affine option"
  r_nodata :: "real option"
  r_band :: nat

text \<open>
  Modelled from the spec: the class \<^verbatim>\<open>io.Raster\<close> is not part of the sources at hand.
  What \<^verbatim>\<open>rast.read\<close> returns is a window of an array, an affine transform and a nodata
  value or none; its \<^verbatim>\<open>shape\<close> is the shape of its array.
\<close>

record window =
  w_array :: "real ndarray"
  w_affine :: affine
  w_nodata :: "real option"

definition w_shape :: "window \<Rightarrow> shape" where
  "w_shape fsrc = shp (w_array fsrc)"

text \<open>The numpy steps at which an allocation for feature \<open>i\<close> may fail.\<close>

datatype step = AtNodataStat | AtMasked | AtCompressed

text \<open>
  The helpers of \<^verbatim>\<open>utils\<close> and \<^verbatim>\<open>io\<close> that are not part of the sources at hand, the
  tables of statistic names, and the machine: each is a parameter of the run.  A
  helper that may raise returns a sum.  \<open>np_alloc_fails i st\<close> says that numpy raises
  \<^verbatim>\<open>MemoryError\<close> at step \<open>st\<close> of feature \<open>i\<close>; \<open>str_of_num\<close> is Python's formatting of a
  number and \<open>np_sqrt\<close> numpy's square root.
\<close>

record env =
  VALID_STATS :: "string list"
  DEFAULT_STATS :: "string list"
  get_percentile :: "string \<Rightarrow> error + real"
  raster_open :: "rast \<Rightarrow> error option"
  rast_read :: "rast \<Rightarrow> bounds \<Rightarrow> error + window"
  boxify_points :: "geometry \<Rightarrow> rast \<Rightarrow> geometry"
  rasterize_geom :: "geometry \<Rightarrow> window \<Rightarrow> bool \<Rightarrow> error + bool ndarray"
  rasterize_pctcover :: "geometry \<Rightarrow> affine \<Rightarrow> shape \<Rightarrow> error + real ndarray"
  np_alloc_fails :: "nat \<Rightarrow> step \<Rightarrow> bool"
  str_of_num :: "real \<Rightarrow> string"
  np_sqrt :: "real \<Rightarrow> real"

subsection \<open>Statistics over the surviving values\<close>

definition seq :: "'e + 'a \<Rightarrow> ('a \<Rightarrow> 'e + 'b) \<Rightarrow> 'e + 'b" where
  "seq m f = (case m of Inl e \<Rightarrow> Inl e | Inr x \<Rightarrow> f x)"

text \<open>\<^verbatim>\<open>if c: feature_stats[k] = v\<close>, where evaluating \<open>v\<close> may raise.\<close>

definition put_if :: "bool \<Rightarrow> key \<Rightarrow> error + pyval \<Rightarrow> pydict \<Rightarrow> error + pydict" where
  "put_if c k v fs = (if c then seq v (\<lambda>x. Inr (AList.update k x fs)) else Inr fs)"

text \<open>Lines 222-224: every requested statistic is \<^verbatim>\<open>None\<close>, and \<^verbatim>\<open>count\<close> is 0.\<close>

definition empty_stats :: "string list \<Rightarrow> pydict" where
  "empty_stats stats =
     (let feature_stats = dict_of (map (\<lambda>stat. (KStr stat, PNone)) stats)
      in if ''count'' \<in> set stats
         then AList.update (KStr ''count'') (PInt 0) feature_stats
         else feature_stats)"

text \<open>Lines 228-230: \<^verbatim>\<open>pixel_count\<close>, as the dictionary it is.\<close>

definition hist_dict :: "(real \<times> nat) list \<Rightarrow> pydict" where
  "hist_dict pc = map (\<lambda>(k, c). (KNum k, PInt (int c))) pc"

text \<open>
  Modelled from the spec: \<^verbatim>\<open>utils.remap_categories\<close> is not part of the sources at
  hand.  The histogram is remapped through the caller's value-to-label table, and an
  unmapped value keeps its raw numeric key.
\<close>

definition remap_categories :: "(real \<times> key) list \<Rightarrow> pydict \<Rightarrow> pydict" where
  "remap_categories category_map fs =
     dict_of (map (\<lambda>(k, v).
        ((case k of
            KNum x \<Rightarrow> (case map_of category_map x of Some l \<Rightarrow> l | None \<Rightarrow> k)
          | KStr _ \<Rightarrow> k), v)) fs)"

text \<open>
  Modelled from the spec: \<^verbatim>\<open>utils.key_assoc_val\<close> is not part of the sources at hand.
  It returns the histogram key with the extreme count (\<open>pick\<close> is \<^verbatim>\<open>max\<close> or
  \<^verbatim>\<open>min\<close>), the first such key met when scanning the histogram.
\<close>

definition key_assoc_val :: "(real \<times> nat) list \<Rightarrow> (nat \<Rightarrow> nat \<Rightarrow> nat) \<Rightarrow> real" where
  "key_assoc_val d pick =
     (let vs = map snd d; ext = fold pick (tl vs) (hd vs)
      in fst (hd (filter (\<lambda>(k, c). c = ext) d)))"

text \<open>\<^verbatim>\<open>np.sum\<close> of a masked array, through \<^verbatim>\<open>float\<close>: a fully masked array sums to \<^verbatim>\<open>nan\<close>.\<close>

definition ma_sum :: "marray \<Rightarrow> real \<Rightarrow> pyval" where
  "ma_sum m d =
     (if compressed_of m = [] \<or> d = 0 then PNaN else PFloat (sum_list (compressed_of m) / d))"

text \<open>
  Lines 245, 247 and 249.  The local \<^verbatim>\<open>pctcover\<close> is \<open>None\<close> while it has never been
  assigned, and reading it then raises.
\<close>

definition weighted_mean :: "marray \<Rightarrow> real ndarray option \<Rightarrow> error + pyval" where
  "weighted_mean masked pctcover =
     (case pctcover of
        None \<Rightarrow> Inl UnboundLocalError
      | Some p \<Rightarrow>
          seq (ma_times masked p) (\<lambda>prod.
          seq (unmasked_weight masked p) (\<lambda>d. Inr (ma_sum prod d))))"

definition weighted_count :: "real ndarray option \<Rightarrow> error + pyval" where
  "weighted_count pctcover =
     (case pctcover of
        None \<Rightarrow> Inl UnboundLocalError
      | Some p \<Rightarrow> Inr (PFloat (sum_list (dat p))))"

definition weighted_sum :: "marray \<Rightarrow> real ndarray option \<Rightarrow> error + pyval" where
  "weighted_sum masked pctcover =
     (case pctcover of
        None \<Rightarrow> Inl UnboundLocalError
      | Some p \<Rightarrow> seq (ma_times masked p) (\<lambda>prod. Inr (ma_sum prod 1)))"

text \<open>Python's \<^verbatim>\<open>rmax - rmin\<close> on the values a result set can hold under a key.\<close>

fun py_sub :: "pyval \<Rightarrow> pyval \<Rightarrow> error + pyval" where
  "py_sub (PFloat a) (PFloat b) = Inr (PFloat (a - b))"
| "py_sub (PFloat a) (PInt b) = Inr (PFloat (a - real_of_int b))"
| "py_sub (PInt a) (PFloat b) = Inr (PFloat (real_of_int a - b))"
| "py_sub (PInt a) (PInt b) = Inr (PInt (a - b))"
| "py_sub PNaN (PFloat b) = Inr PNaN"
| "py_sub PNaN (PInt b) = Inr PNaN"
| "py_sub (PFloat a) PNaN = Inr PNaN"
| "py_sub (PInt a) PNaN = Inr PNaN"
| "py_sub PNaN PNaN = Inr PNaN"
| "py_sub _ _ = Inl TypeError"

text \<open>Lines 270-279: \<^verbatim>\<open>try: rmin = feature_stats['min'] except KeyError: ...\<close>.\<close>

definition range_stat :: "pydict \<Rightarrow> real list \<Rightarrow> error + pyval" where
  "range_stat feature_stats compressed =
     (let rmin = (case map_of feature_stats (KStr ''min'') of
                    Some v \<Rightarrow> v
                  | None \<Rightarrow> PFloat (np_min compressed));
          rmax = (case map_of feature_stats (KStr ''max'') of
                    Some v \<Rightarrow> v
                  | None \<Rightarrow> PFloat (np_max compressed))
      in py_sub rmax rmin)"

text \<open>A use of \<^verbatim>\<open>pixel_count\<close>, which is bound only when \<^verbatim>\<open>run_count\<close> holds.\<close>

definition with_pixel_count ::
  "(real \<times> nat) list option \<Rightarrow> ((real \<times> nat) list \<Rightarrow> pyval) \<Rightarrow> error + pyval" where
  "with_pixel_count pixel_count f =
     (case pixel_count of None \<Rightarrow> Inl UnboundLocalError | Some pc \<Rightarrow> Inr (f pc))"

text \<open>Lines 281-284, over the names that start with \<^verbatim>\<open>percentile_\<close>.\<close>

fun percentile_stats ::
  "(string \<Rightarrow> error + real) \<Rightarrow> string list \<Rightarrow> real list \<Rightarrow> pydict \<Rightarrow> error + pydict" where
  "percentile_stats gp [] compressed fs = Inr fs"
| "percentile_stats gp (pctile # rest) compressed fs =
     (case gp pctile of
        Inl e \<Rightarrow> Inl e
      | Inr q \<Rightarrow>
          percentile_stats gp rest compressed
            (AList.update (KStr pctile) (PFloat (np_percentile compressed q)) fs))"

text \<open>
  Lines 227-285 without the call of \<^verbatim>\<open>rasterize_pctcover\<close>, which the caller makes:
  \<open>fs0\<close> is \<^verbatim>\<open>feature_stats\<close> on entry, \<open>pctcover\<close> the current binding of that local.
\<close>

definition populated_stats ::
  "env \<Rightarrow> string list \<Rightarrow> bool \<Rightarrow> bool \<Rightarrow> (real \<times> key) list \<Rightarrow>
     marray \<Rightarrow> real list \<Rightarrow> real ndarray option \<Rightarrow> pydict \<Rightarrow> error + pydict" where
  "populated_stats E stats run_count categorical category_map masked compressed pctcover fs0 =
     (let pixel_count = (if run_count then Some (np_unique_counts compressed) else None);
          fs1 = (if run_count \<and> categorical
                 then (if category_map \<noteq> []
                       then remap_categories category_map (hist_dict (np_unique_counts compressed))
                       else hist_dict (np_unique_counts compressed))
                 else fs0)
      in
      seq (put_if (''weighted_mean'' \<in> set stats) (KStr ''weighted_mean'')
             (weighted_mean masked pctcover) fs1) (\<lambda>fs.
      seq (put_if (''weighted_count'' \<in> set stats) (KStr ''weighted_count'')
             (weighted_count pctcover) fs) (\<lambda>fs.
      seq (put_if (''weighted_sum'' \<in> set stats) (KStr ''weighted_sum'')
             (weighted_sum masked pctcover) fs) (\<lambda>fs.
      seq (put_if (''mean'' \<in> set stats) (KStr ''mean'')
             (Inr (PFloat (np_mean compressed))) fs) (\<lambda>fs.
      seq (put_if (''count'' \<in> set stats) (KStr ''count'')
             (Inr (PInt (int (length compressed)))) fs) (\<lambda>fs.
      seq (put_if (''sum'' \<in> set stats) (KStr ''sum'')
             (Inr (PFloat (sum_list compressed))) fs) (\<lambda>fs.
      seq (put_if (''min'' \<in> set stats) (KStr ''min'')
             (Inr (PFloat (np_min compressed))) fs) (\<lambda>fs.
      seq (put_if (''max'' \<in> set stats) (KStr ''max'')
             (Inr (PFloat (np_max compressed))) fs) (\<lambda>fs.
      seq (put_if (''std'' \<in> set stats) (KStr ''std'')
             (Inr (PFloat (np_std (np_sqrt E) compressed))) fs) (\<lambda>fs.
      seq (put_if (''median'' \<in> set stats) (KStr ''median'')
             (Inr (PFloat (np_median compressed))) fs) (\<lambda>fs.
      seq (put_if (''majority'' \<in> set stats) (KStr ''majority'')
             (with_pixel_count pixel_count (\<lambda>pc. PFloat (key_assoc_val pc max))) fs) (\<lambda>fs.
      seq (put_if (''minority'' \<in> set stats) (KStr ''minority'')
             (with_pixel_count pixel_count (\<lambda>pc. PFloat (key_assoc_val pc min))) fs) (\<lambda>fs.
      seq (put_if (''unique'' \<in> set stats) (KStr ''unique'')
             (with_pixel_count pixel_count (\<lambda>pc. PInt (int (length pc)))) fs) (\<lambda>fs.
      seq (put_if (''range'' \<in> set stats) (KStr ''range'')
             (range_stat fs compressed) fs) (\<lambda>fs.
      percentile_stats (get_percentile E) (filter (\<lambda>s. startswith s ''percentile_'') stats)
        compressed fs
      )))))))))))))))"


subsection \<open>Setup: \<^verbatim>\<open>check_stats\<close>, the arguments and the state of a run\<close>

text \<open>
  Modelled from the spec: \<^verbatim>\<open>utils.check_stats\<close> is not part of the sources at hand.
  The selection defaults to a documented subset; a name that starts with
  \<^verbatim>\<open>percentile_\<close> must parse, any other name must be a known statistic; the second
  component says whether a histogram is needed, the third whether a weighted
  statistic was requested.  The selection is a list here: the splitting of a
  whitespace-delimited string is left out.
\<close>

fun validate_stats :: "env \<Rightarrow> string list \<Rightarrow> error option" where
  "validate_stats E [] = None"
| "validate_stats E (x # xs) =
     (if startswith x ''percentile_''
      then (case get_percentile E x of
              Inl e \<Rightarrow> Some InvalidPercentileSpec
            | Inr q \<Rightarrow> validate_stats E xs)
      else if x \<in> set (VALID_STATS E) then validate_stats E xs
      else Some InvalidStatistic)"

definition check_stats ::
  "env \<Rightarrow> string list option \<Rightarrow> bool \<Rightarrow> error + (string list \<times> bool \<times> bool)" where
  "check_stats E sel categorical =
     (let stats = (case sel of None \<Rightarrow> DEFAULT_STATS E | Some l \<Rightarrow> l)
      in case validate_stats E stats of
           Some e \<Rightarrow> Inl e
         | None \<Rightarrow>
             Inr (stats,
                  categorical \<or> ''majority'' \<in> set stats \<or> ''minority'' \<in> set stats
                    \<or> ''unique'' \<in> set stats,
                  ''weighted_mean'' \<in> set stats \<or> ''weighted_sum'' \<in> set stats
                    \<or> ''weighted_count'' \<in> set stats))"

text \<open>
  The arguments of \<^verbatim>\<open>gen_zonal_stats\<close>.  \<open>vectors\<close> and \<open>layer\<close> are replaced by the
  features that \<^verbatim>\<open>read_features\<close> produces, which are an argument of the run.  An
  absent or empty \<^verbatim>\<open>category_map\<close> is the empty list.  The last three fields are the
  deprecated keyword arguments.
\<close>

record cfg =
  raster :: raster_arg
  band_num :: nat
  nodata :: "real option"
  affine :: "affine option"
  stats :: "string list option"
  all_touched :: bool
  categorical :: bool
  category_map :: "(real \<times> key) list"
  add_stats :: "(string \<times> (marray \<Rightarrow> error + pyval)) list option"
  raster_out :: bool
  prefix :: "string option"
  save_properties :: bool
  geojson_out :: bool
  transform :: "affine option"
  nodata_value :: "real option"
  copy_properties :: bool

text \<open>
  Features are objects of a store, since the function writes into the caller's
  features: a feature has a geometry and, when the key is present, a reference to
  its \<^verbatim>\<open>properties\<close> dictionary (a \<^verbatim>\<open>properties\<close> that is \<^verbatim>\<open>None\<close> is left out).  \<open>fresh\<close> is
  the next unused reference.
\<close>

type_synonym ref = nat

record feature =
  geometry :: geometry
  properties :: "ref option"

record heap =
  feats :: "ref \<Rightarrow> feature"
  dicts :: "ref \<Rightarrow> pydict"
  fresh :: ref

text \<open>What the generator yields: the feature object, a dictionary object, or a new dictionary.\<close>

datatype yielded = YFeature ref | YDict ref | YStats pydict

datatype event =
    Warn string
  | Open rast
  | Read nat bounds
  | Rasterize nat bool
  | Print string
  | PrintProps pydict

text \<open>
  The locals that live across iterations of the loop (\<^verbatim>\<open>weights\<close>, \<^verbatim>\<open>pctcover\<close>), the
  store, what happened so far and what was yielded so far.
\<close>

record state =
  weights :: bool
  pctcover :: "real ndarray option"
  store :: heap
  trace :: "event list"
  yields :: "yielded list"

subsection \<open>Setup: the deprecated keywords\<close>

text \<open>\<^verbatim>\<open>Affine.from_gdal(c, a, b, f, d, e)\<close> is \<^verbatim>\<open>Affine(a, b, c, d, e, f)\<close>.\<close>

definition from_gdal :: "affine \<Rightarrow> affine" where
  "from_gdal t = (case t of (c, a, b, f, d, e) \<Rightarrow> (a, b, c, d, e, f))"

text \<open>Python's truth value of an optional number: \<^verbatim>\<open>None\<close> and zero are false.\<close>

definition truthy :: "real option \<Rightarrow> bool" where
  "truthy x = (case x of None \<Rightarrow> False | Some v \<Rightarrow> v \<noteq> 0)"

text \<open>Lines 128-145: the raster object's arguments and the warnings given.\<close>

definition deprecations :: "cfg \<Rightarrow> rast \<times> event list" where
  "deprecations C =
     (let w1 = (if transform C \<noteq> None
                then [Warn ''GDAL-style transforms will disappear in 1.0. Use affine=Affine.from_gdal(*transform) instead'']
                else []);
          affine1 = (if transform C \<noteq> None \<and> affine C = None
                     then map_option from_gdal (transform C) else affine C);
          w2 = (if truthy (nodata_value C)
                then [Warn ''Use `nodata` instead of `nodata_value`''] else []);
          nodata1 = (if truthy (nodata_value C) \<and> \<not> truthy (nodata C)
                     then nodata_value C else nodata C);
          w3 = (if copy_properties C
                then [Warn ''Use `geojson_out` or `save_properties` to preserve feature properties'']
                else [])
      in (\<lparr>r_src = raster C, r_affine = affine1, r_nodata = nodata1, r_band = band_num C\<rparr>,
          w1 @ w2 @ w3))"


subsection \<open>One feature: lines 153-314\<close>

text \<open>
  The result of a piece of the loop body is the exception that leaves the generator,
  if any, and the state.  With no exception the loop goes on to the next feature.
\<close>

type_synonym outcome = "error option \<times> state"

text \<open>
  The handlers of \<^verbatim>\<open>MemoryError\<close>: two \<^verbatim>\<open>print\<close> statements and \<^verbatim>\<open>continue\<close>.  Reading
  \<^verbatim>\<open>feat['properties']\<close> raises \<^verbatim>\<open>KeyError\<close> when the feature has no such key.
\<close>

definition skip_feature :: "string \<Rightarrow> ref \<Rightarrow> state \<Rightarrow> outcome" where
  "skip_feature msg r s =
     (let s1 = s\<lparr>trace := trace s @ [Print msg]\<rparr>
      in case properties (feats (store s) r) of
           None \<Rightarrow> (Some KeyError, s1)
         | Some p \<Rightarrow> (None, s1\<lparr>trace := trace s1 @ [PrintProps (dicts (store s) p)]\<rparr>))"

text \<open>Lines 287-289: the caller's functions, each applied to the masked array.\<close>

fun apply_add_stats ::
  "(string \<times> (marray \<Rightarrow> error + pyval)) list \<Rightarrow> marray \<Rightarrow> pydict \<Rightarrow> error + pydict" where
  "apply_add_stats [] masked fs = Inr fs"
| "apply_add_stats ((stat_name, stat_func) # rest) masked fs =
     (case stat_func masked of
        Inl e \<Rightarrow> Inl e
      | Inr v \<Rightarrow> apply_add_stats rest masked (AList.update (KStr stat_name) v fs))"

text \<open>Lines 291-294.\<close>

definition mini_raster :: "window \<Rightarrow> marray \<Rightarrow> pydict \<Rightarrow> pydict" where
  "mini_raster fsrc masked fs =
     AList.update (KStr ''mini_raster_nodata'')
       (case w_nodata fsrc of None \<Rightarrow> PNone | Some v \<Rightarrow> PFloat v)
       (AList.update (KStr ''mini_raster_affine'') (PAffine (w_affine fsrc))
          (AList.update (KStr ''mini_raster_array'') (PMasked masked) fs))"

text \<open>Lines 296-301: \<^verbatim>\<open>"{}{}".format(prefix, key)\<close> for every key.\<close>

definition key_str :: "env \<Rightarrow> key \<Rightarrow> string" where
  "key_str E k = (case k of KStr n \<Rightarrow> n | KNum x \<Rightarrow> str_of_num E x)"

definition add_prefix :: "env \<Rightarrow> string \<Rightarrow> pydict \<Rightarrow> pydict" where
  "add_prefix E p fs = dict_of (map (\<lambda>(k, v). (KStr (p @ key_str E k), v)) fs)"

text \<open>
  Lines 304-307: for every item, \<^verbatim>\<open>feat['properties']\<close> is created when the key is
  missing, and the item is stored into it.
\<close>

definition ensure_properties :: "ref \<Rightarrow> heap \<Rightarrow> ref \<times> heap" where
  "ensure_properties r h =
     (case properties (feats h r) of
        Some p \<Rightarrow> (p, h)
      | None \<Rightarrow>
          (fresh h,
           h\<lparr>feats := (feats h)(r := (feats h r)\<lparr>properties := Some (fresh h)\<rparr>),
             dicts := (dicts h)(fresh h := []),
             fresh := Suc (fresh h)\<rparr>))"

fun merge_properties :: "ref \<Rightarrow> pydict \<Rightarrow> heap \<Rightarrow> heap" where
  "merge_properties r [] h = h"
| "merge_properties r ((k, v) # rest) h =
     (case ensure_properties r h of
        (p, h1) \<Rightarrow>
          merge_properties r rest (h1\<lparr>dicts := (dicts h1)(p := AList.update k v (dicts h1 p))\<rparr>))"

text \<open>Lines 303-314.\<close>

definition emit :: "cfg \<Rightarrow> ref \<Rightarrow> pydict \<Rightarrow> state \<Rightarrow> outcome" where
  "emit C r fs s =
     (if geojson_out C \<or> save_properties C then
        (let h = merge_properties r fs (store s)
         in if geojson_out C then (None, s\<lparr>store := h, yields := yields s @ [YFeature r]\<rparr>)
            else (case properties (feats h r) of
                    None \<Rightarrow> (Some KeyError, s\<lparr>store := h\<rparr>)
                  | Some p \<Rightarrow> (None, s\<lparr>store := h, yields := yields s @ [YDict p]\<rparr>)))
      else (None, s\<lparr>yields := yields s @ [YStats fs]\<rparr>))"

text \<open>Lines 291-301: the keys of \<^verbatim>\<open>raster_out\<close>, then the prefix.\<close>

definition output_keys :: "env \<Rightarrow> cfg \<Rightarrow> window \<Rightarrow> marray \<Rightarrow> pydict \<Rightarrow> pydict" where
  "output_keys E C fsrc masked fs1 =
     (let fs2 = (if raster_out C then mini_raster fsrc masked fs1 else fs1)
      in case prefix C of None \<Rightarrow> fs2 | Some p \<Rightarrow> add_prefix E p fs2)"

text \<open>Lines 287-301: what is yielded for the feature, from its built-in statistics.\<close>

definition final_stats :: "env \<Rightarrow> cfg \<Rightarrow> window \<Rightarrow> marray \<Rightarrow> pydict \<Rightarrow> error + pydict" where
  "final_stats E C fsrc masked fs =
     seq (case add_stats C of None \<Rightarrow> Inr fs | Some l \<Rightarrow> apply_add_stats l masked fs) (\<lambda>fs1.
       Inr (output_keys E C fsrc masked fs1))"

definition finish :: "env \<Rightarrow> cfg \<Rightarrow> ref \<Rightarrow> window \<Rightarrow> marray \<Rightarrow> pydict \<Rightarrow> state \<Rightarrow> outcome" where
  "finish E C r fsrc masked fs s =
     (case final_stats E C fsrc masked fs of
        Inl e \<Rightarrow> (Some e, s)
      | Inr fs3 \<Rightarrow> emit C r fs3 s)"

text \<open>
  The pieces of the body before line 287 either leave the iteration (\<open>Inl\<close>: the
  feature is skipped, or an exception leaves the generator) or hand their values on.
\<close>

text \<open>Lines 153-173.\<close>

definition window_stage ::
  "env \<Rightarrow> rast \<Rightarrow> nat \<Rightarrow> ref \<Rightarrow> state \<Rightarrow> outcome + (geometry \<times> window \<times> state)" where
  "window_stage E rs i r s =
     (let g = geometry (feats (store s) r);
          is_point = str_contains (gtype g) ''Point'';
          s0 = (if is_point then s\<lparr>weights := False\<rparr> else s);
          geom = (if is_point then boxify_points E g rs else g);
          s1 = s0\<lparr>trace := trace s0 @ [Read i (gbounds geom)]\<rparr>
      in case rast_read E rs (gbounds geom) of
           Inl e \<Rightarrow>
             Inl (if e = MemoryError then skip_feature ''Memory Error (fsrc): \<newline>'' r s1
                  else (Some e, s1))
         | Inr fsrc \<Rightarrow> Inr (geom, fsrc, s1))"

text \<open>Lines 176-185: the assertion is inside the \<^verbatim>\<open>try\<close>, which catches \<^verbatim>\<open>MemoryError\<close> only.\<close>

definition rasterize_stage ::
  "env \<Rightarrow> bool \<Rightarrow> nat \<Rightarrow> ref \<Rightarrow> geometry \<Rightarrow> window \<Rightarrow> state \<Rightarrow>
     outcome + (bool ndarray \<times> state)" where
  "rasterize_stage E touched i r geom fsrc s =
     (let s1 = s\<lparr>trace := trace s @ [Rasterize i touched]\<rparr>
      in case rasterize_geom E geom fsrc touched of
           Inl e \<Rightarrow>
             Inl (if e = MemoryError then skip_feature ''Memory Error (rv_array): \<newline>'' r s1
                  else (Some e, s1))
         | Inr rv_array \<Rightarrow>
             if shp rv_array = w_shape fsrc then Inr (rv_array, s1)
             else Inl (Some AssertionError, s1))"

text \<open>Lines 188-189 and 195-199.\<close>

text \<open>
  The sum of line 189 runs over the covered cells; over no cell at all it is numpy's
  masked constant, which \<^verbatim>\<open>float\<close> turns into \<^verbatim>\<open>nan\<close>.  A window without a nodata value
  has no nodata cell.
\<close>

definition nodata_stat :: "window \<Rightarrow> bool ndarray \<Rightarrow> pyval" where
  "nodata_stat fsrc rv_array =
     (let covered = filter snd (zip (dat (w_array fsrc)) (dat rv_array))
      in if covered = [] then PNaN
         else PFloat (real (length (filter (\<lambda>(v, c). w_nodata fsrc = Some v) covered))))"

definition masked_of :: "window \<Rightarrow> bool ndarray \<Rightarrow> marray" where
  "masked_of fsrc rv_array =
     \<lparr>mshape = shp (w_array fsrc),
      mdata = dat (w_array fsrc),
      mmask = map (\<lambda>(v, c). w_nodata fsrc = Some v \<or> \<not> c)
                (zip (dat (w_array fsrc)) (dat rv_array))\<rparr>"

text \<open>
  Lines 187-217.  The statements of lines 188-189 stand outside every \<^verbatim>\<open>try\<close>, so a
  \<^verbatim>\<open>MemoryError\<close> there leaves the generator.
\<close>

definition mask_stage ::
  "env \<Rightarrow> string list \<Rightarrow> nat \<Rightarrow> ref \<Rightarrow> window \<Rightarrow> bool ndarray \<Rightarrow> state \<Rightarrow>
     outcome + (pydict \<times> marray)" where
  "mask_stage E sts i r fsrc rv_array s =
     (if ''nodata'' \<in> set sts \<and> np_alloc_fails E i AtNodataStat then Inl (Some MemoryError, s)
      else if np_alloc_fails E i AtMasked
      then Inl (skip_feature ''Memory Error (masked): \<newline>'' r s)
      else if np_alloc_fails E i AtCompressed
      then Inl (skip_feature ''Memory Error (compressed): \<newline>'' r s)
      else Inr (if ''nodata'' \<in> set sts
                then [(KStr ''nodata'', nodata_stat fsrc rv_array)] else [],
                masked_of fsrc rv_array))"

text \<open>Lines 220-285: \<open>fs0\<close> is \<^verbatim>\<open>feature_stats\<close> on entry.\<close>

definition stats_stage ::
  "env \<Rightarrow> cfg \<Rightarrow> string list \<Rightarrow> bool \<Rightarrow> ref \<Rightarrow> geometry \<Rightarrow> window \<Rightarrow> marray \<Rightarrow> pydict \<Rightarrow>
     state \<Rightarrow> outcome + (pydict \<times> state)" where
  "stats_stage E C sts run_count r geom fsrc masked fs0 s =
     (let compressed = compressed_of masked
      in if length compressed = 0 then Inr (empty_stats sts, s)
         else
           (case (if weights s
                  then map_sum id Some (rasterize_pctcover E geom (w_affine fsrc) (w_shape fsrc))
                  else Inr (pctcover s)) of
              Inl e \<Rightarrow>
                Inl (if e = MemoryError then skip_feature ''Memory Error (pctcover): \<newline>'' r s
                     else (Some e, s))
            | Inr pc \<Rightarrow>
                (case populated_stats E sts run_count (categorical C)
                        (category_map C) masked compressed pc fs0 of
                   Inl e \<Rightarrow> Inl (Some e, s\<lparr>pctcover := pc\<rparr>)
                 | Inr fs \<Rightarrow> Inr (fs, s\<lparr>pctcover := pc\<rparr>))))"

text \<open>Lines 153-285: the window, the masked array and the built-in statistics of a feature.\<close>

definition feature_stats_of ::
  "env \<Rightarrow> cfg \<Rightarrow> rast \<Rightarrow> string list \<Rightarrow> bool \<Rightarrow> bool \<Rightarrow> nat \<Rightarrow> ref \<Rightarrow> state \<Rightarrow>
     outcome + (window \<times> marray \<times> pydict \<times> state)" where
  "feature_stats_of E C rs sts run_count touched i r s =
     seq (window_stage E rs i r s) (\<lambda>(geom, fsrc, s1).
     seq (rasterize_stage E touched i r geom fsrc s1) (\<lambda>(rv_array, s2).
     seq (mask_stage E sts i r fsrc rv_array s2) (\<lambda>(fs0, masked).
     seq (stats_stage E C sts run_count r geom fsrc masked fs0 s2) (\<lambda>(fs, s3).
       Inr (fsrc, masked, fs, s3)))))"

text \<open>The body of the loop.\<close>

definition feature_body ::
  "env \<Rightarrow> cfg \<Rightarrow> rast \<Rightarrow> string list \<Rightarrow> bool \<Rightarrow> bool \<Rightarrow> nat \<Rightarrow> ref \<Rightarrow> state \<Rightarrow> outcome" where
  "feature_body E C rs sts run_count touched i r s =
     (case feature_stats_of E C rs sts run_count touched i r s of
        Inl out \<Rightarrow> out
      | Inr (fsrc, masked, fs, s3) \<Rightarrow> finish E C r fsrc masked fs s3)"

subsection \<open>The loop and the function\<close>

fun features_loop ::
  "env \<Rightarrow> cfg \<Rightarrow> rast \<Rightarrow> string list \<Rightarrow> bool \<Rightarrow> bool \<Rightarrow> nat \<Rightarrow> ref list \<Rightarrow> state \<Rightarrow> outcome" where
  "features_loop E C rs sts run_count touched i [] s = (None, s)"
| "features_loop E C rs sts run_count touched i (r # rest) s =
     (case feature_body E C rs sts run_count touched i r s of
        (Some e, s1) \<Rightarrow> (Some e, s1)
      | (None, s1) \<Rightarrow> features_loop E C rs sts run_count touched (Suc i) rest s1)"

text \<open>
  \<^verbatim>\<open>gen_zonal_stats\<close>, consumed to the end, on the features \<open>vectors\<close> of the store \<open>h\<close>.
\<close>

definition initial_state :: "heap \<Rightarrow> state" where
  "initial_state h = \<lparr>weights = False, pctcover = None, store = h, trace = [], yields = []\<rparr>"

definition gen_zonal_stats :: "env \<Rightarrow> cfg \<Rightarrow> ref list \<Rightarrow> heap \<Rightarrow> outcome" where
  "gen_zonal_stats E C vectors h =
     (case check_stats E (stats C) (categorical C) of
        Inl e \<Rightarrow> (Some e, initial_state h)
      | Inr (sts, run_count, w) \<Rightarrow>
          (case deprecations C of
             (rs, warnings) \<Rightarrow>
               (let touched = (if w then True else all_touched C);
                    s1 = (initial_state h)\<lparr>weights := w, trace := warnings @ [Open rs]\<rparr>
                in case raster_open E rs of
                     Some e \<Rightarrow> (Some e, s1)
                   | None \<Rightarrow> features_loop E C rs sts run_count touched 0 vectors s1)))"

subsection \<open>Notions used in the statements\<close>

text \<open>The selection that \<^const>\<open>check_stats\<close> validates, and what makes a name invalid.\<close>

definition selection :: "env \<Rightarrow> cfg \<Rightarrow> string list" where
  "selection E C = (case stats C of None \<Rightarrow> DEFAULT_STATS E | Some l \<Rightarrow> l)"

definition invalid_stat :: "env \<Rightarrow> string \<Rightarrow> bool" where
  "invalid_stat E x =
     (if startswith x ''percentile_'' then isl (get_percentile E x)
      else x \<notin> set (VALID_STATS E))"

definition wants_weights :: "string list \<Rightarrow> bool" where
  "wants_weights l =
     (''weighted_mean'' \<in> set l \<or> ''weighted_sum'' \<in> set l \<or> ''weighted_count'' \<in> set l)"

text \<open>The \<^verbatim>\<open>all_touched\<close> argument of every call of \<^verbatim>\<open>rasterize_geom\<close>, in order.\<close>

definition rasterize_flags :: "event list \<Rightarrow> bool list" where
  "rasterize_flags tr = concat (map (\<lambda>ev. case ev of Rasterize i b \<Rightarrow> [b] | _ \<Rightarrow> []) tr)"

text \<open>The properties of a feature, empty when it has none.\<close>

definition props_of :: "heap \<Rightarrow> ref \<Rightarrow> pydict" where
  "props_of h r = (case properties (feats h r) of None \<Rightarrow> [] | Some p \<Rightarrow> dicts h p)"

definition str_keys :: "pydict \<Rightarrow> bool" where
  "str_keys fs = (\<forall>k\<in>fst ` set fs. \<exists>n. k = KStr n)"

definition prefix_of :: "cfg \<Rightarrow> string" where
  "prefix_of C = (case prefix C of None \<Rightarrow> [] | Some p \<Rightarrow> p)"

text \<open>The names under which later statements of the body store other values.\<close>

definition custom_names :: "cfg \<Rightarrow> string set" where
  "custom_names C = (case add_stats C of None \<Rightarrow> {} | Some l \<Rightarrow> fst ` set l)"

definition mini_raster_names :: "cfg \<Rightarrow> string set" where
  "mini_raster_names C =
     (if raster_out C
      then {''mini_raster_array'', ''mini_raster_affine'', ''mini_raster_nodata''}
      else {})"

text \<open>The caller's functions, and whether one of them raises on the masked array.\<close>

definition customs :: "cfg \<Rightarrow> (string \<times> (marray \<Rightarrow> error + pyval)) list" where
  "customs C = (case add_stats C of None \<Rightarrow> [] | Some l \<Rightarrow> l)"

definition custom_raises :: "cfg \<Rightarrow> marray \<Rightarrow> bool" where
  "custom_raises C masked = (\<exists>(n, f)\<in>set (customs C). isl (f masked))"

text \<open>The dictionary that a yielded record is, or holds as its properties.\<close>

definition yielded_dict :: "heap \<Rightarrow> yielded \<Rightarrow> pydict" where
  "yielded_dict h y =
     (case y of YStats d \<Rightarrow> d | YDict p \<Rightarrow> dicts h p | YFeature r \<Rightarrow> props_of h r)"

text \<open>What a caller of \<^verbatim>\<open>zonal_stats\<close> observes: the exception, the results, the events.\<close>

definition summary :: "outcome \<Rightarrow> error option \<times> yielded list \<times> event list" where
  "summary out = (fst out, yields (snd out), trace (snd out))"

subsection \<open>Concrete inputs\<close>

text \<open>
  A one-row raster, a polygon over all of it and a point.  The collaborators of the
  test environment cover every cell of the window they are given, fully.
\<close>

definition zone_polygon :: geometry where
  "zone_polygon =
     \<lparr>gtype = ''Polygon'', gcoords = [(0, 0), (2, 0), (2, 1), (0, 1), (0, 0)],
      gbounds = (0, 0, 2, 1)\<rparr>"

definition zone_point :: geometry where
  "zone_point = \<lparr>gtype = ''Point'', gcoords = [(5, 1 / 2)], gbounds = (5, 1 / 2, 5, 1 / 2)\<rparr>"

definition row_window :: "real list \<Rightarrow> real option \<Rightarrow> window" where
  "row_window vs nd =
     \<lparr>w_array = \<lparr>shp = (1, length vs), dat = vs\<rparr>,
      w_affine = (1, 0, 0, 0, - 1, 1), w_nodata = nd\<rparr>"

definition test_env :: "(bounds \<Rightarrow> error + window) \<Rightarrow> env" where
  "test_env rd =
     \<lparr>VALID_STATS = [''count'', ''min'', ''max'', ''mean'', ''sum'', ''std'', ''median'',
         ''majority'', ''minority'', ''unique'', ''range'', ''nodata'', ''weighted_mean'',
         ''weighted_count'', ''weighted_sum''],
      DEFAULT_STATS = [''count'', ''min'', ''max'', ''mean''],
      get_percentile = (\<lambda>n. Inl ValueError),
      raster_open = (\<lambda>rs. None),
      rast_read = (\<lambda>rs. rd),
      boxify_points = (\<lambda>g rs. g\<lparr>gtype := ''Polygon''\<rparr>),
      rasterize_geom =
        (\<lambda>g w t. Inr \<lparr>shp = w_shape w, dat = map (\<lambda>v. True) (dat (w_array w))\<rparr>),
      rasterize_pctcover = (\<lambda>g a sh. Inr \<lparr>shp = sh, dat = replicate (fst sh * snd sh) 1\<rparr>),
      np_alloc_fails = (\<lambda>i st. False),
      str_of_num = (\<lambda>x. ''x''),
      np_sqrt = (\<lambda>x. x)\<rparr>"

definition test_cfg :: "string list \<Rightarrow> cfg" where
  "test_cfg l =
     \<lparr>raster = RasterPath ''dem.tif'', band_num = 1, nodata = None, affine = None,
      stats = Some l, all_touched = False, categorical = False, category_map = [],
      add_stats = None, raster_out = False, prefix = None, save_properties = False,
      geojson_out = False, transform = None, nodata_value = None, copy_properties = False\<rparr>"

text \<open>
  Feature \<open>r\<close> has the \<open>r\<close>-th geometry; with \<open>props\<close> its properties are the dictionary
  \<open>100 + r\<close>, which holds an \<^verbatim>\<open>id\<close>, and without it has no \<^verbatim>\<open>properties\<close> key.
\<close>

definition test_heap :: "geometry list \<Rightarrow> bool \<Rightarrow> heap" where
  "test_heap gs props =
     \<lparr>feats = (\<lambda>r. \<lparr>geometry = (if r < length gs then gs ! r else zone_polygon),
                     properties = (if props then Some (100 + r) else None)\<rparr>),
      dicts = (\<lambda>p. [(KStr ''id'', PInt (int p - 100))]),
      fresh = 200\<rparr>"

text \<open>The state in which the loop starts on these inputs.\<close>

definition test_state :: "geometry list \<Rightarrow> bool \<Rightarrow> state" where
  "test_state gs props =
     \<lparr>weights = False, pctcover = None, store = test_heap gs props, trace = [], yields = []\<rparr>"

definition test_rast :: rast where
  "test_rast = \<lparr>r_src = RasterPath ''dem.tif'', r_affine = None, r_nodata = None, r_band = 1\<rparr>"

text \<open>
  The inputs of the cases below: numpy runs out of memory at line 188 of the first
  feature; a point over a nodata cell, then a polygon; a fully covered nodata cell;
  a category labelled \<^verbatim>\<open>min\<close>.
\<close>

definition oom_at_nodata_env :: env where
  "oom_at_nodata_env =
     (test_env (\<lambda>b. Inr (row_window [1, 1, 5] None)))
       \<lparr>np_alloc_fails := (\<lambda>i st. i = 0 \<and> st = AtNodataStat)\<rparr>"

definition oom_at_masked_env :: env where
  "oom_at_masked_env =
     (test_env (\<lambda>b. Inr (row_window [1, 1, 5] None)))
       \<lparr>np_alloc_fails := (\<lambda>i st. i = 0 \<and> st = AtMasked)\<rparr>"

definition point_then_polygon_env :: env where
  "point_then_polygon_env =
     test_env (\<lambda>b. if b = gbounds zone_point then Inr (row_window [9999] (Some 9999))
                    else Inr (row_window [1, 1, 5] (Some 9999)))"

definition nodata_cell_env :: env where
  "nodata_cell_env = test_env (\<lambda>b. Inr (row_window [5, 9999] (Some 9999)))"

definition plain_env :: env where
  "plain_env = test_env (\<lambda>b. Inr (row_window [1, 1, 5] None))"

definition labelled_min_cfg :: cfg where
  "labelled_min_cfg =
     (test_cfg [''range''])\<lparr>categorical := True, category_map := [(1, KStr ''min'')]\<rparr>"

definition wrong_shape_env :: env where
  "wrong_shape_env =
     plain_env\<lparr>rasterize_geom := (\<lambda>g w t. Inr \<lparr>shp = (2, 2), dat = [True, True, True, True]\<rparr>)\<rparr>"

definition empty_geojson_cfg :: cfg where
  "empty_geojson_cfg = (test_cfg [])\<lparr>categorical := True, geojson_out := True\<rparr>"

definition nodata_only :: marray where
  "nodata_only = \<lparr>mshape = (1, 2), mdata = [9999, 9999], mmask = [True, True]\<rparr>"

definition prefixed_cfg :: cfg where
  "prefixed_cfg = (test_cfg [''count'', ''mean''])\<lparr>prefix := Some ''z_''\<rparr>"

definition nodata_only_env :: env where
  "nodata_only_env = test_env (\<lambda>b. Inr (row_window [9999, 9999] (Some 9999)))"

definition surviving_cells :: marray where
  "surviving_cells = \<lparr>mshape = (1, 3), mdata = [1, 1, 5], mmask = [False, False, False]\<rparr>"

definition overriding_cfg :: cfg where
  "overriding_cfg =
     (test_cfg [''count'', ''mean''])\<lparr>add_stats := Some [(''count'', \<lambda>m. Inr (PInt 42))]\<rparr>"

definition empty_save_cfg :: cfg where
  "empty_save_cfg = (test_cfg [])\<lparr>categorical := True, save_properties := True\<rparr>"

definition one_masked_cell :: marray where
  "one_masked_cell = \<lparr>mshape = (1, 2), mdata = [5, 9999], mmask = [False, True]\<rparr>"

definition counting_cfg :: cfg where
  "counting_cfg =
     (test_cfg [''count''])
       \<lparr>add_stats := Some [(''cells'', \<lambda>m. Inr (PInt (int (length (mdata m))))),
                           (''excluded'', \<lambda>m. Inr (PInt (int (length (filter id (mmask m))))))]\<rparr>"

definition breaking_cfg :: cfg where
  "breaking_cfg =
     (test_cfg [''count''])
       \<lparr>add_stats := Some [(''cells'', \<lambda>m. Inr (PInt (int (length (mdata m))))),
                           (''broken'', \<lambda>m. Inl (OtherError ''custom''))]\<rparr>"

section \<open>Properties\<close>

lemmas input_defs =
  zone_polygon_def zone_point_def row_window_def test_env_def test_cfg_def test_heap_def
  test_state_def test_rast_def oom_at_nodata_env_def oom_at_masked_env_def
  point_then_polygon_env_def nodata_cell_env_def plain_env_def labelled_min_cfg_def
  wrong_shape_env_def empty_geojson_cfg_def nodata_only_def prefixed_cfg_def
  nodata_only_env_def surviving_cells_def overriding_cfg_def empty_save_cfg_def
  one_masked_cell_def counting_cfg_def breaking_cfg_def

lemmas run_defs =
  summary_def gen_zonal_stats_def check_stats_def deprecations_def initial_state_def
  feature_body_def feature_stats_of_def window_stage_def rasterize_stage_def mask_stage_def
  stats_stage_def finish_def final_stats_def output_keys_def emit_def skip_feature_def seq_def
  startswith_def truthy_def w_shape_def masked_of_def compressed_of_def nodata_stat_def
  ensure_properties_def Let_def

lemmas stat_defs =
  populated_stats_def put_if_def empty_stats_def dict_of_def
  weighted_mean_def weighted_sum_def weighted_count_def range_stat_def with_pixel_count_def
  np_min_def np_max_def np_mean_def np_unique_counts_def hist_dict_def remap_categories_def

subsection \<open>Validation comes first\<close>

lemma validate_stats_invalid:
  "\<exists>x\<in>set l. invalid_stat E x \<Longrightarrow>
   validate_stats E l \<in> {Some InvalidStatistic, Some InvalidPercentileSpec}"
proof (induction l)
  case Nil
  then show ?case by simp
next
  case (Cons a l)
  show ?case
  proof (cases "invalid_stat E a")
    case True
    then show ?thesis
      by (auto simp: invalid_stat_def isl_def split: if_splits)
  next
    case False
    with Cons.prems have "\<exists>x\<in>set l. invalid_stat E x" by auto
    from Cons.IH[OF this] False show ?thesis
      by (auto simp: invalid_stat_def isl_def split: if_splits sum.splits)
  qed
qed

lemma validate_stats_valid:
  "\<forall>x\<in>set l. \<not> invalid_stat E x \<Longrightarrow> validate_stats E l = None"
  by (induction l) (auto split: sum.splits if_splits simp: isl_def invalid_stat_def)

text \<open>
  C7: when the selection holds an unknown statistic name or a percentile name that
  does not parse, the call stops with a validation error in the state in which it
  started: nothing was yielded, and no event happened, so the raster was neither
  opened nor read and no feature was looked at.
\<close>

theorem invalid_selection_fails_before_raster_access:
  assumes "\<exists>x\<in>set (selection E C). invalid_stat E x"
  shows "fst (gen_zonal_stats E C vectors h) \<in> {Some InvalidStatistic, Some InvalidPercentileSpec}
         \<and> snd (gen_zonal_stats E C vectors h) = initial_state h
         \<and> trace (initial_state h) = [] \<and> yields (initial_state h) = []"
  using validate_stats_invalid[OF assms[unfolded selection_def]]
  by (auto simp: gen_zonal_stats_def check_stats_def initial_state_def)

theorem invalid_selection_fails_before_raster_access_witness:
  "invalid_stat plain_env ''bogus''
   \<and> summary (gen_zonal_stats plain_env (test_cfg [''count'', ''bogus'']) [0, 1]
                (test_heap [zone_polygon, zone_polygon] True))
     = (Some InvalidStatistic, [], [])"
proof -
  have bad: "invalid_stat plain_env ''bogus''"
    by (simp add: invalid_stat_def startswith_def input_defs)
  then have "\<exists>x\<in>set (selection plain_env (test_cfg [''count'', ''bogus''])). invalid_stat plain_env x"
    by (simp add: selection_def test_cfg_def)
  from invalid_selection_fails_before_raster_access[OF this,
      of "[0, 1]" "test_heap [zone_polygon, zone_polygon] True"]
  have "snd (gen_zonal_stats plain_env (test_cfg [''count'', ''bogus'']) [0, 1]
               (test_heap [zone_polygon, zone_polygon] True))
        = initial_state (test_heap [zone_polygon, zone_polygon] True)"
    by simp
  moreover have "fst (gen_zonal_stats plain_env (test_cfg [''count'', ''bogus'']) [0, 1]
               (test_heap [zone_polygon, zone_polygon] True)) = Some InvalidStatistic"
    by (simp add: gen_zonal_stats_def check_stats_def startswith_def input_defs)
  ultimately show ?thesis
    using bad by (simp add: summary_def initial_state_def)
qed

subsection \<open>The shape assertion\<close>

lemma window_stage_yields:
  "window_stage E rs i r s = Inr (geom, fsrc, s1) \<Longrightarrow> yields s1 = yields s \<and> store s1 = store s"
  by (auto simp: window_stage_def Let_def split: sum.splits if_splits)

text \<open>
  C8: when the window of a feature was read and the rasterizer returns a mask whose
  shape differs from the window's, the loop stops at this feature with
  \<^verbatim>\<open>AssertionError\<close>: no skip diagnostic is printed, nothing is yielded for the
  feature, and the features after it are not processed.
\<close>

theorem mask_shape_mismatch_is_fatal:
  assumes "window_stage E rs i r s = Inr (geom, fsrc, s1)"
    and "rasterize_geom E geom fsrc touched = Inr rv_array"
    and "shp rv_array \<noteq> w_shape fsrc"
  shows "features_loop E C rs sts run_count touched i (r # rest) s
           = (Some AssertionError, s1\<lparr>trace := trace s1 @ [Rasterize i touched]\<rparr>)
         \<and> yields s1 = yields s \<and> store s1 = store s"
  using assms window_stage_yields[OF assms(1)]
  by (simp add: feature_body_def feature_stats_of_def seq_def rasterize_stage_def Let_def)

theorem mask_shape_mismatch_is_fatal_witness:
  "window_stage wrong_shape_env test_rast 0 0 (test_state [zone_polygon] True)
     = Inr (zone_polygon, row_window [1, 1, 5] None,
            (test_state [zone_polygon] True)\<lparr>trace := [Read 0 (0, 0, 2, 1)]\<rparr>)
   \<and> rasterize_geom wrong_shape_env zone_polygon (row_window [1, 1, 5] None) False
     = Inr \<lparr>shp = (2, 2), dat = [True, True, True, True]\<rparr>
   \<and> (2, 2) \<noteq> w_shape (row_window [1, 1, 5] None)
   \<and> summary (features_loop wrong_shape_env (test_cfg [''count'']) test_rast [''count'']
                False False 0 [0, 1] (test_state [zone_polygon] True))
     = (Some AssertionError, [], [Read 0 (0, 0, 2, 1), Rasterize 0 False])"
proof -
  have h1: "window_stage wrong_shape_env test_rast 0 0 (test_state [zone_polygon] True)
     = Inr (zone_polygon, row_window [1, 1, 5] None,
            (test_state [zone_polygon] True)\<lparr>trace := [Read 0 (0, 0, 2, 1)]\<rparr>)"
    by (simp add: window_stage_def startswith_def Let_def input_defs)
  have h2: "rasterize_geom wrong_shape_env zone_polygon (row_window [1, 1, 5] None) False
     = Inr \<lparr>shp = (2, 2), dat = [True, True, True, True]\<rparr>"
    by (simp add: input_defs)
  have h3: "shp \<lparr>shp = (2, 2), dat = [True, True, True, True]\<rparr>
              \<noteq> w_shape (row_window [1, 1, 5] None)"
    by (simp add: w_shape_def row_window_def)
  from mask_shape_mismatch_is_fatal[OF h1 h2 h3, of "test_cfg [''count'']" "[''count'']" False "[1]"]
  show ?thesis
    using h1 h2 h3 by (simp add: summary_def test_state_def)
qed

subsection \<open>The pieces of the loop body\<close>

lemma feature_body_cases [case_names window_exit rasterize_exit mask_exit stats_exit finished]:
  obtains
    out where "window_stage E rs i r s = Inl out"
      and "feature_body E C rs sts run_count touched i r s = out"
  | geom fsrc s1 out where "window_stage E rs i r s = Inr (geom, fsrc, s1)"
      and "rasterize_stage E touched i r geom fsrc s1 = Inl out"
      and "feature_body E C rs sts run_count touched i r s = out"
  | geom fsrc s1 rv s2 out where "window_stage E rs i r s = Inr (geom, fsrc, s1)"
      and "rasterize_stage E touched i r geom fsrc s1 = Inr (rv, s2)"
      and "mask_stage E sts i r fsrc rv s2 = Inl out"
      and "feature_body E C rs sts run_count touched i r s = out"
  | geom fsrc s1 rv s2 fs0 masked out where "window_stage E rs i r s = Inr (geom, fsrc, s1)"
      and "rasterize_stage E touched i r geom fsrc s1 = Inr (rv, s2)"
      and "mask_stage E sts i r fsrc rv s2 = Inr (fs0, masked)"
      and "stats_stage E C sts run_count r geom fsrc masked fs0 s2 = Inl out"
      and "feature_body E C rs sts run_count touched i r s = out"
  | geom fsrc s1 rv s2 fs0 masked fs s3 where "window_stage E rs i r s = Inr (geom, fsrc, s1)"
      and "rasterize_stage E touched i r geom fsrc s1 = Inr (rv, s2)"
      and "mask_stage E sts i r fsrc rv s2 = Inr (fs0, masked)"
      and "stats_stage E C sts run_count r geom fsrc masked fs0 s2 = Inr (fs, s3)"
      and "feature_stats_of E C rs sts run_count touched i r s = Inr (fsrc, masked, fs, s3)"
      and "feature_body E C rs sts run_count touched i r s = finish E C r fsrc masked fs s3"
proof (cases "window_stage E rs i r s")
  case (Inl out)
  then show ?thesis
    using that(1) by (simp add: feature_body_def feature_stats_of_def seq_def)
next
  case (Inr a)
  then obtain geom fsrc s1 where w: "window_stage E rs i r s = Inr (geom, fsrc, s1)"
    by (cases a) auto
  show ?thesis
  proof (cases "rasterize_stage E touched i r geom fsrc s1")
    case (Inl out)
    with w show ?thesis
      using that(2) by (simp add: feature_body_def feature_stats_of_def seq_def)
  next
    case (Inr b)
    then obtain rv s2 where rz: "rasterize_stage E touched i r geom fsrc s1 = Inr (rv, s2)"
      by (cases b) auto
    show ?thesis
    proof (cases "mask_stage E sts i r fsrc rv s2")
      case (Inl out)
      with w rz show ?thesis
        using that(3) by (simp add: feature_body_def feature_stats_of_def seq_def)
    next
      case (Inr c)
      then obtain fs0 masked where mk: "mask_stage E sts i r fsrc rv s2 = Inr (fs0, masked)"
        by (cases c) auto
      show ?thesis
      proof (cases "stats_stage E C sts run_count r geom fsrc masked fs0 s2")
        case (Inl out)
        with w rz mk show ?thesis
          using that(4) by (simp add: feature_body_def feature_stats_of_def seq_def)
      next
        case (Inr d)
        then obtain fs s3 where
          st: "stats_stage E C sts run_count r geom fsrc masked fs0 s2 = Inr (fs, s3)"
          by (cases d) auto
        with w rz mk show ?thesis
          using that(5) by (simp add: feature_body_def feature_stats_of_def seq_def)
      qed
    qed
  qed
qed


text \<open>Only the last statements of the body (lines 303-314) write into the store.\<close>

lemma skip_feature_store [simp]: "store (snd (skip_feature m r s)) = store s"
  by (simp add: skip_feature_def Let_def split: option.splits)

lemma stages_keep_store:
  "window_stage E rs i r s = Inl out \<Longrightarrow> store (snd out) = store s"
  "window_stage E rs i r s = Inr (geom, fsrc, s1) \<Longrightarrow> store s1 = store s"
  "rasterize_stage E touched i r geom fsrc s = Inl out \<Longrightarrow> store (snd out) = store s"
  "rasterize_stage E touched i r geom fsrc s = Inr (rv, s2) \<Longrightarrow> store s2 = store s"
  "mask_stage E sts i r fsrc rv s = Inl out \<Longrightarrow> store (snd out) = store s"
  "stats_stage E C sts run_count r geom fsrc masked fs0 s = Inl out \<Longrightarrow> store (snd out) = store s"
  "stats_stage E C sts run_count r geom fsrc masked fs0 s = Inr (fs, s3) \<Longrightarrow> store s3 = store s"
  by (auto simp: window_stage_def rasterize_stage_def mask_stage_def stats_stage_def Let_def
      split: sum.splits if_splits)

lemma standalone_mode_keeps_store:
  assumes "\<not> geojson_out C" and "\<not> save_properties C"
  shows "store (snd (feature_body E C rs sts run_count touched i r s)) = store s"
  using assms
  by (cases rule: feature_body_cases[of E rs i r s C sts run_count touched])
    (auto simp: stages_keep_store finish_def emit_def split: sum.splits)

text \<open>What holds of a feature that reaches line 287.\<close>

lemma stages_keep_yields:
  "window_stage E rs i r s = Inr (geom, fsrc, s1) \<Longrightarrow> yields s1 = yields s"
  "rasterize_stage E touched i r geom fsrc s = Inr (rv, s2) \<Longrightarrow> yields s2 = yields s"
  "stats_stage E C sts run_count r geom fsrc masked fs0 s = Inr (fs, s3) \<Longrightarrow> yields s3 = yields s"
  by (auto simp: window_stage_def rasterize_stage_def stats_stage_def Let_def
      split: sum.splits if_splits)

lemma feature_stats_of_reached:
  assumes "feature_stats_of E C rs sts run_count touched i r s = Inr (fsrc, masked, fs, s3)"
  shows "feature_body E C rs sts run_count touched i r s = finish E C r fsrc masked fs s3"
    and "yields s3 = yields s" and "store s3 = store s"
    and "\<exists>rv_array. masked = masked_of fsrc rv_array"
    and "compressed_of masked = [] \<Longrightarrow> fs = empty_stats sts"
proof -
  show "feature_body E C rs sts run_count touched i r s = finish E C r fsrc masked fs s3"
    using assms by (simp add: feature_body_def)
  from assms obtain geom s1 rv s2 fs0 where
    w: "window_stage E rs i r s = Inr (geom, fsrc, s1)"
    and rz: "rasterize_stage E touched i r geom fsrc s1 = Inr (rv, s2)"
    and mk: "mask_stage E sts i r fsrc rv s2 = Inr (fs0, masked)"
    and st: "stats_stage E C sts run_count r geom fsrc masked fs0 s2 = Inr (fs, s3)"
    by (auto simp: feature_stats_of_def seq_def split: sum.splits prod.splits)
  show "yields s3 = yields s"
    using stages_keep_yields(1)[OF w] stages_keep_yields(2)[OF rz] stages_keep_yields(3)[OF st]
    by simp
  show "store s3 = store s"
    using stages_keep_store(2)[OF w] stages_keep_store(4)[OF rz] stages_keep_store(7)[OF st]
    by simp
  show "\<exists>rv_array. masked = masked_of fsrc rv_array"
    using mk by (auto simp: mask_stage_def split: if_splits)
  show "fs = empty_stats sts" if "compressed_of masked = []"
    using st that by (simp add: stats_stage_def)
qed

subsection \<open>The rasterization policy\<close>

lemma rasterize_flags_append [simp]:
  "rasterize_flags (a @ b) = rasterize_flags a @ rasterize_flags b"
  by (simp add: rasterize_flags_def)

lemma rasterize_flags_simps [simp]:
  "rasterize_flags [] = []"
  "rasterize_flags (Rasterize i b # tr) = b # rasterize_flags tr"
  "rasterize_flags (Print m # tr) = rasterize_flags tr"
  "rasterize_flags (PrintProps d # tr) = rasterize_flags tr"
  "rasterize_flags (Read i bs # tr) = rasterize_flags tr"
  "rasterize_flags (Open rs # tr) = rasterize_flags tr"
  "rasterize_flags (Warn m # tr) = rasterize_flags tr"
  by (simp_all add: rasterize_flags_def)

lemma skip_feature_flags [simp]:
  "rasterize_flags (trace (snd (skip_feature m r s))) = rasterize_flags (trace s)"
  by (simp add: skip_feature_def Let_def split: option.splits)

lemma emit_trace [simp]: "trace (snd (emit C r fs s)) = trace s"
  by (simp add: emit_def Let_def split: option.splits)

lemma finish_trace [simp]: "trace (snd (finish E C r fsrc masked fs s)) = trace s"
  by (simp add: finish_def split: sum.splits)

lemma window_stage_flags:
  "window_stage E rs i r s = Inl out \<Longrightarrow>
     rasterize_flags (trace (snd out)) = rasterize_flags (trace s)"
  "window_stage E rs i r s = Inr (geom, fsrc, s1) \<Longrightarrow>
     rasterize_flags (trace s1) = rasterize_flags (trace s)"
  by (auto simp: window_stage_def Let_def split: sum.splits if_splits)

lemma rasterize_stage_flags:
  "rasterize_stage E touched i r geom fsrc s = Inl out \<Longrightarrow>
     rasterize_flags (trace (snd out)) = rasterize_flags (trace s) @ [touched]"
  "rasterize_stage E touched i r geom fsrc s = Inr (rv, s1) \<Longrightarrow>
     rasterize_flags (trace s1) = rasterize_flags (trace s) @ [touched]"
  by (auto simp: rasterize_stage_def Let_def split: sum.splits if_splits)

lemma mask_stage_flags:
  "mask_stage E sts i r fsrc rv s = Inl out \<Longrightarrow>
     rasterize_flags (trace (snd out)) = rasterize_flags (trace s)"
  by (auto simp: mask_stage_def Let_def split: if_splits)

lemma stats_stage_flags:
  "stats_stage E C sts run_count r geom fsrc masked fs0 s = Inl out \<Longrightarrow>
     rasterize_flags (trace (snd out)) = rasterize_flags (trace s)"
  "stats_stage E C sts run_count r geom fsrc masked fs0 s = Inr (fs, s1) \<Longrightarrow>
     trace s1 = trace s"
  by (auto simp: stats_stage_def Let_def split: if_splits sum.splits)

lemma feature_body_flags:
  "rasterize_flags (trace (snd (feature_body E C rs sts run_count touched i r s)))
     = rasterize_flags (trace s)
   \<or> rasterize_flags (trace (snd (feature_body E C rs sts run_count touched i r s)))
     = rasterize_flags (trace s) @ [touched]"
  by (cases rule: feature_body_cases[of E rs i r s C sts run_count touched])
    (auto simp: window_stage_flags rasterize_stage_flags mask_stage_flags stats_stage_flags)

lemma features_loop_flags:
  "\<forall>b\<in>set (rasterize_flags (trace s)). b = touched \<Longrightarrow>
   \<forall>b\<in>set (rasterize_flags (trace (snd (features_loop E C rs sts run_count touched i vs s)))).
      b = touched"
proof (induction vs arbitrary: i s)
  case Nil
  then show ?case by simp
next
  case (Cons r vs)
  obtain e s1 where fb: "feature_body E C rs sts run_count touched i r s = (e, s1)"
    by (cases "feature_body E C rs sts run_count touched i r s") auto
  from feature_body_flags[of E C rs sts run_count touched i r s] fb Cons.prems
  have inv: "\<forall>b\<in>set (rasterize_flags (trace s1)). b = touched" by auto
  show ?case
  proof (cases e)
    case None
    with fb Cons.IH[OF inv] show ?thesis by simp
  next
    case (Some a)
    with fb inv show ?thesis by simp
  qed
qed

text \<open>
  C3: when a weighted statistic is in the selection, every call of the rasterizer
  that the run makes, for whichever feature, has \<^verbatim>\<open>all_touched\<close> set, whatever the
  caller passed.  The flag is computed once, before the raster is opened.
\<close>

theorem weighted_stats_force_all_touched:
  assumes "wants_weights (selection E C)"
  shows "\<forall>b\<in>set (rasterize_flags (trace (snd (gen_zonal_stats E C vectors h)))). b = True"
proof (cases "check_stats E (stats C) (categorical C)")
  case (Inl e)
  then show ?thesis by (simp add: gen_zonal_stats_def initial_state_def)
next
  case (Inr a)
  obtain sts run_count w where a: "a = (sts, run_count, w)" by (cases a) auto
  from Inr a assms have w: "w" and "sts = selection E C"
    by (auto simp: check_stats_def selection_def wants_weights_def Let_def split: option.splits)
  obtain rs warnings where d: "deprecations C = (rs, warnings)" by (cases "deprecations C") auto
  have nowarn: "rasterize_flags warnings = []"
    using d by (auto simp: deprecations_def Let_def)
  show ?thesis
  proof (cases "raster_open E rs")
    case None
    have "\<forall>b\<in>set (rasterize_flags (trace (snd (features_loop E C rs sts run_count True 0 vectors
             ((initial_state h)\<lparr>weights := w, trace := warnings @ [Open rs]\<rparr>))))). b = True"
      by (rule features_loop_flags) (simp add: nowarn)
    with Inr a d None w show ?thesis by (simp add: gen_zonal_stats_def)
  next
    case (Some e)
    with Inr a d show ?thesis by (simp add: gen_zonal_stats_def nowarn)
  qed
qed

subsection \<open>Custom statistics\<close>

lemma apply_add_stats_keeps:
  "apply_add_stats l masked fs = Inr fs' \<Longrightarrow> n \<notin> fst ` set l \<Longrightarrow>
   map_of fs' (KStr n) = map_of fs (KStr n)"
proof (induction l arbitrary: fs)
  case Nil
  then show ?case by simp
next
  case (Cons a l)
  obtain m f where a: "a = (m, f)" by (cases a) auto
  from Cons.prems a obtain v where v: "f masked = Inr v"
    and rest: "apply_add_stats l masked (AList.update (KStr m) v fs) = Inr fs'"
    by (auto split: sum.splits)
  from Cons.prems a have "n \<noteq> m" "n \<notin> fst ` set l" by auto
  with Cons.IH[OF rest] show ?case by (simp add: update_conv')
qed

lemma apply_add_stats_stored:
  "apply_add_stats l masked fs = Inr fs' \<Longrightarrow> distinct (map fst l) \<Longrightarrow> (n, f) \<in> set l \<Longrightarrow>
   \<exists>v. f masked = Inr v \<and> map_of fs' (KStr n) = Some v"
proof (induction l arbitrary: fs)
  case Nil
  then show ?case by simp
next
  case (Cons a l)
  obtain m g where a: "a = (m, g)" by (cases a) auto
  from Cons.prems a obtain v where v: "g masked = Inr v"
    and rest: "apply_add_stats l masked (AList.update (KStr m) v fs) = Inr fs'"
    by (auto split: sum.splits)
  show ?case
  proof (cases "(n, f) = (m, g)")
    case True
    from Cons.prems(2) a have "m \<notin> fst ` set l" by auto
    from apply_add_stats_keeps[OF rest this] True v show ?thesis
      by (simp add: update_conv')
  next
    case False
    with Cons.prems a have "(n, f) \<in> set l" "distinct (map fst l)" by auto
    from Cons.IH[OF rest this(2) this(1)] show ?thesis .
  qed
qed

lemma apply_add_stats_raises:
  "apply_add_stats l masked fs = Inl e \<Longrightarrow> \<exists>(n, f)\<in>set l. f masked = Inl e"
proof (induction l arbitrary: fs)
  case Nil
  then show ?case by simp
next
  case (Cons a l)
  obtain m g where a: "a = (m, g)" by (cases a) auto
  show ?case
  proof (cases "g masked")
    case (Inl e')
    with Cons.prems a show ?thesis by auto
  next
    case (Inr v)
    with Cons.prems a have "apply_add_stats l masked (AList.update (KStr m) v fs) = Inl e" by simp
    from Cons.IH[OF this] show ?thesis by auto
  qed
qed

lemma apply_add_stats_ok:
  "\<forall>(n, f)\<in>set l. \<not> isl (f masked) \<Longrightarrow> \<exists>fs'. apply_add_stats l masked fs = Inr fs'"
proof (induction l arbitrary: fs)
  case Nil
  then show ?case by simp
next
  case (Cons a l)
  obtain m g where a: "a = (m, g)" by (cases a) auto
  with Cons.prems obtain v where "g masked = Inr v" by (cases "g masked") auto
  with Cons a show ?case by auto
qed

lemma feature_stats_of_masked:
  assumes "feature_stats_of E C rs sts run_count touched i r s = Inr (fsrc, masked, fs, s3)"
  shows "\<exists>rv_array. masked = masked_of fsrc rv_array"
  using assms
  by (auto simp: feature_stats_of_def seq_def mask_stage_def split: sum.splits prod.splits if_splits)

lemma apply_add_stats_frame:
  "apply_add_stats l masked fs = Inr fs' \<Longrightarrow> k \<notin> KStr ` fst ` set l \<Longrightarrow>
   map_of fs' k = map_of fs k"
proof (induction l arbitrary: fs)
  case Nil
  then show ?case by simp
next
  case (Cons a l)
  obtain m f where a: "a = (m, f)" by (cases a) auto
  from Cons.prems a obtain v where
    rest: "apply_add_stats l masked (AList.update (KStr m) v fs) = Inr fs'"
    by (auto split: sum.splits)
  from Cons.prems a have "k \<noteq> KStr m" "k \<notin> KStr ` fst ` set l" by auto
  with Cons.IH[OF rest] show ?case by (simp add: update_conv')
qed

text \<open>
  C9: for a feature that reaches line 287, the array handed to the caller's functions
  holds every value of the window, with the mask that says which are excluded.  When
  no function raises, the result of each function is stored under its name in the
  result set, whose other keys stay as they were, and the body goes on with exactly
  that result set: what it yields is made from it by lines 291-314.  When a function
  raises, the loop stops with an exception raised by a caller's function, nothing is
  yielded for the feature and the remaining features are not processed.
\<close>

theorem custom_statistics_on_masked_array:
  assumes reach: "feature_stats_of E C rs sts run_count touched i r s = Inr (fsrc, masked, fs, s3)"
    and custom: "add_stats C = Some l"
    and names: "distinct (map fst l)"
  shows "mdata masked = dat (w_array fsrc) \<and> mshape masked = w_shape fsrc
       \<and> ((\<forall>(n, f)\<in>set l. \<not> isl (f masked)) \<longrightarrow>
            (\<exists>fs'. (\<forall>(n, f)\<in>set l. \<exists>v. f masked = Inr v \<and> map_of fs' (KStr n) = Some v)
                \<and> (\<forall>k. k \<notin> KStr ` fst ` set l \<longrightarrow> map_of fs' k = map_of fs k)
                \<and> feature_body E C rs sts run_count touched i r s
                    = emit C r (output_keys E C fsrc masked fs') s3))
       \<and> ((\<exists>(n, f)\<in>set l. isl (f masked)) \<longrightarrow>
            (\<exists>(n, f)\<in>set l. \<exists>e. f masked = Inl e
                \<and> features_loop E C rs sts run_count touched i (r # rest) s = (Some e, s3))
            \<and> yields s3 = yields s)"
proof (intro conjI impI)
  note r = feature_stats_of_reached[OF reach]
  from r(4) show "mdata masked = dat (w_array fsrc)" by (auto simp: masked_of_def)
  from r(4) show "mshape masked = w_shape fsrc" by (auto simp: masked_of_def w_shape_def)
next
  assume ok: "\<forall>(n, f)\<in>set l. \<not> isl (f masked)"
  note r = feature_stats_of_reached[OF reach]
  from apply_add_stats_ok[OF ok, of fs] obtain fs' where
    a: "apply_add_stats l masked fs = Inr fs'" by blast
  have "\<forall>(n, f)\<in>set l. \<exists>v. f masked = Inr v \<and> map_of fs' (KStr n) = Some v"
    using apply_add_stats_stored[OF a names] by auto
  moreover have "\<forall>k. k \<notin> KStr ` fst ` set l \<longrightarrow> map_of fs' k = map_of fs k"
    using apply_add_stats_frame[OF a] by blast
  moreover have "feature_body E C rs sts run_count touched i r s
                    = emit C r (output_keys E C fsrc masked fs') s3"
    using r(1) a custom by (simp add: finish_def final_stats_def seq_def)
  ultimately show "\<exists>fs'. (\<forall>(n, f)\<in>set l. \<exists>v. f masked = Inr v \<and> map_of fs' (KStr n) = Some v)
                \<and> (\<forall>k. k \<notin> KStr ` fst ` set l \<longrightarrow> map_of fs' k = map_of fs k)
                \<and> feature_body E C rs sts run_count touched i r s
                    = emit C r (output_keys E C fsrc masked fs') s3"
    by blast
next
  assume bad: "\<exists>(n, f)\<in>set l. isl (f masked)"
  note r = feature_stats_of_reached[OF reach]
  obtain e where a: "apply_add_stats l masked fs = Inl e"
  proof (cases "apply_add_stats l masked fs")
    case (Inl e)
    then show ?thesis using that by blast
  next
    case (Inr fs')
    from bad obtain n f where nf: "(n, f) \<in> set l" "isl (f masked)" by auto
    from apply_add_stats_stored[OF Inr names nf(1)] nf(2) show ?thesis by auto
  qed
  have "features_loop E C rs sts run_count touched i (r # rest) s = (Some e, s3)"
    using r(1) a custom by (simp add: finish_def final_stats_def seq_def)
  with apply_add_stats_raises[OF a]
  show "\<exists>(n, f)\<in>set l. \<exists>e. f masked = Inl e
                \<and> features_loop E C rs sts run_count touched i (r # rest) s = (Some e, s3)"
    by blast
next
  assume "\<exists>(n, f)\<in>set l. isl (f masked)"
  show "yields s3 = yields s" by (rule feature_stats_of_reached(2)[OF reach])
qed

subsection \<open>Merging into the feature\<close>

lemma map_of_foldl_update:
  "map_of (foldl (\<lambda>d (k, v). AList.update k v d) d ps) = map_of d ++ map_of (rev ps)"
proof (induction ps arbitrary: d)
  case Nil
  then show ?case by simp
next
  case (Cons a ps)
  obtain k v where a: "a = (k, v)" by (cases a) auto
  have "map_of (foldl (\<lambda>d (k, v). AList.update k v d) d (a # ps))
        = map_of (AList.update k v d) ++ map_of (rev ps)"
    using Cons.IH[of "AList.update k v d"] a by simp
  also have "\<dots> = map_of d ++ map_of (rev (a # ps))"
    by (simp add: a update_conv' fun_eq_iff map_add_def split: option.splits)
  finally show ?case .
qed

lemma merge_properties_present:
  "properties (feats h r) = Some p \<Longrightarrow>
   merge_properties r fs h
     = h\<lparr>dicts := (dicts h)(p := foldl (\<lambda>d (k, v). AList.update k v d) (dicts h p) fs)\<rparr>"
proof (induction fs arbitrary: h)
  case Nil
  then show ?case by simp
next
  case (Cons a fs)
  obtain k v where a: "a = (k, v)" by (cases a) auto
  let ?h1 = "h\<lparr>dicts := (dicts h)(p := AList.update k v (dicts h p))\<rparr>"
  have p1: "properties (feats ?h1 r) = Some p" using Cons.prems by simp
  have "merge_properties r (a # fs) h = merge_properties r fs ?h1"
    using Cons.prems by (simp add: a ensure_properties_def)
  also have "\<dots> = ?h1\<lparr>dicts := (dicts ?h1)(p :=
                 foldl (\<lambda>d (k, v). AList.update k v d) (dicts ?h1 p) fs)\<rparr>"
    by (rule Cons.IH[OF p1])
  also have "\<dots> = h\<lparr>dicts := (dicts h)(p :=
                 foldl (\<lambda>d (k, v). AList.update k v d) (dicts h p) (a # fs))\<rparr>"
    by (simp add: a)
  finally show ?case .
qed

lemma merge_properties_absent:
  assumes "properties (feats h r) = None" and "fs \<noteq> []"
  shows "merge_properties r fs h
     = h\<lparr>feats := (feats h)(r := (feats h r)\<lparr>properties := Some (fresh h)\<rparr>),
         dicts := (dicts h)(fresh h := foldl (\<lambda>d (k, v). AList.update k v d) [] fs),
         fresh := Suc (fresh h)\<rparr>"
proof -
  from assms(2) obtain k v rest where fs: "fs = (k, v) # rest" by (cases fs) auto
  let ?h1 = "h\<lparr>feats := (feats h)(r := (feats h r)\<lparr>properties := Some (fresh h)\<rparr>),
               dicts := (dicts h)(fresh h := []),
               fresh := Suc (fresh h)\<rparr>"
  let ?h2 = "?h1\<lparr>dicts := (dicts ?h1)(fresh h := AList.update k v (dicts ?h1 (fresh h)))\<rparr>"
  have p2: "properties (feats ?h2 r) = Some (fresh h)" by simp
  have "merge_properties r fs h = merge_properties r rest ?h2"
    using assms(1) by (simp add: fs ensure_properties_def)
  also have "\<dots> = ?h2\<lparr>dicts := (dicts ?h2)(fresh h :=
                 foldl (\<lambda>d (k, v). AList.update k v d) (dicts ?h2 (fresh h)) rest)\<rparr>"
    by (rule merge_properties_present[OF p2])
  finally show ?thesis by (simp add: fs)
qed

text \<open>
  Lines 303-314 on a result set that is not empty: with neither flag the store is
  left as it is and the result set is yielded as a new dictionary; with a flag the
  feature gets a \<^verbatim>\<open>properties\<close> dictionary when it had none, every item is stored into
  that dictionary, over what it held, and the feature itself or that dictionary is
  what is yielded.
\<close>

lemma emit_merges_result_set:
  "(\<not> geojson_out C \<and> \<not> save_properties C \<longrightarrow>
      emit C r fs s = (None, s\<lparr>yields := yields s @ [YStats fs]\<rparr>))
   \<and> ((geojson_out C \<or> save_properties C) \<and> fs \<noteq> [] \<longrightarrow>
        (\<exists>p h'. emit C r fs s
                  = (None, s\<lparr>store := h',
                              yields := yields s @ [if geojson_out C then YFeature r else YDict p]\<rparr>)
           \<and> properties (feats h' r) = Some p
           \<and> p = (case properties (feats (store s) r) of None \<Rightarrow> fresh (store s) | Some p0 \<Rightarrow> p0)
           \<and> map_of (dicts h' p) = map_of (props_of (store s) r) ++ map_of (rev fs)
           \<and> geometry (feats h' r) = geometry (feats (store s) r)
           \<and> (\<forall>r'. r' \<noteq> r \<longrightarrow> feats h' r' = feats (store s) r')
           \<and> (\<forall>q. q \<noteq> p \<longrightarrow> dicts h' q = dicts (store s) q)))
   \<and> (geojson_out C \<and> fs = [] \<longrightarrow>
        emit C r fs s = (None, s\<lparr>yields := yields s @ [YFeature r]\<rparr>))
   \<and> (save_properties C \<and> \<not> geojson_out C \<and> fs = []
          \<and> properties (feats (store s) r) \<noteq> None \<longrightarrow>
        emit C r fs s
          = (None, s\<lparr>yields := yields s @ [YDict (the (properties (feats (store s) r)))]\<rparr>))"
proof (intro conjI impI)
  assume "\<not> geojson_out C \<and> \<not> save_properties C"
  then show "emit C r fs s = (None, s\<lparr>yields := yields s @ [YStats fs]\<rparr>)"
    by (simp add: emit_def)
next
  assume a: "(geojson_out C \<or> save_properties C) \<and> fs \<noteq> []"
  let ?h = "store s"
  show "\<exists>p h'. emit C r fs s
                  = (None, s\<lparr>store := h',
                              yields := yields s @ [if geojson_out C then YFeature r else YDict p]\<rparr>)
           \<and> properties (feats h' r) = Some p
           \<and> p = (case properties (feats (store s) r) of None \<Rightarrow> fresh (store s) | Some p0 \<Rightarrow> p0)
           \<and> map_of (dicts h' p) = map_of (props_of (store s) r) ++ map_of (rev fs)
           \<and> geometry (feats h' r) = geometry (feats (store s) r)
           \<and> (\<forall>r'. r' \<noteq> r \<longrightarrow> feats h' r' = feats (store s) r')
           \<and> (\<forall>q. q \<noteq> p \<longrightarrow> dicts h' q = dicts (store s) q)"
  proof (cases "properties (feats ?h r)")
    case None
    from a have ne: "fs \<noteq> []" by simp
    note m = merge_properties_absent[OF None ne]
    show ?thesis
      apply (rule exI[of _ "fresh ?h"])
      apply (rule exI[of _ "merge_properties r fs ?h"])
      using a None
      apply (simp add: emit_def Let_def m props_of_def map_of_foldl_update)
      done
  next
    case (Some p0)
    note m = merge_properties_present[OF Some, of fs]
    show ?thesis
      apply (rule exI[of _ p0])
      apply (rule exI[of _ "merge_properties r fs ?h"])
      using a Some
      apply (simp add: emit_def Let_def m props_of_def map_of_foldl_update)
      done
  qed
next
  assume "geojson_out C \<and> fs = []"
  then show "emit C r fs s = (None, s\<lparr>yields := yields s @ [YFeature r]\<rparr>)"
    by (simp add: emit_def)
next
  assume "save_properties C \<and> \<not> geojson_out C \<and> fs = []
          \<and> properties (feats (store s) r) \<noteq> None"
  then show "emit C r fs s
          = (None, s\<lparr>yields := yields s @ [YDict (the (properties (feats (store s) r)))]\<rparr>)"
    by (auto simp: emit_def)
qed

subsection \<open>Features without surviving cells\<close>

lemma map_of_dict_of: "map_of (dict_of ps) = map_of (rev ps)"
  by (simp add: dict_of_def map_of_foldl_update)

lemma map_of_rev_distinct: "distinct (map fst ps) \<Longrightarrow> map_of (rev ps) = map_of ps"
  by (rule map_of_inject_set[THEN iffD2]) (simp_all add: distinct_rev rev_map[symmetric])

lemma map_of_const_None:
  "map_of (rev (map (\<lambda>stat. (KStr stat, PNone)) sts)) k
     = (if k \<in> KStr ` set sts then Some PNone else None)"
  by (induction sts) (auto simp: map_add_def)

lemma map_of_empty_stats:
  "map_of (empty_stats sts) k =
     (if k = KStr ''count'' \<and> ''count'' \<in> set sts then Some (PInt 0)
      else if k \<in> KStr ` set sts then Some PNone else None)"
  by (auto simp: empty_stats_def Let_def update_conv' map_of_dict_of map_of_const_None)

lemma distinct_foldl_update:
  "distinct (map fst d) \<Longrightarrow> distinct (map fst (foldl (\<lambda>d (k, v). AList.update k v d) d ps))"
  by (induction ps arbitrary: d) (auto simp: distinct_update)

lemma distinct_dict_of: "distinct (map fst (dict_of ps))"
  by (simp add: dict_of_def distinct_foldl_update)

lemma distinct_empty_stats: "distinct (map fst (empty_stats sts))"
  by (simp add: empty_stats_def Let_def distinct_update distinct_dict_of)

lemma str_keys_update: "str_keys fs \<Longrightarrow> str_keys (AList.update (KStr n) v fs)"
  by (auto simp: str_keys_def dom_update)

lemma str_keys_empty_stats: "str_keys (empty_stats sts)"
proof -
  have "fst ` set (dict_of (map (\<lambda>stat. (KStr stat, PNone)) sts)) \<subseteq> KStr ` set sts"
  proof
    fix k assume "k \<in> fst ` set (dict_of (map (\<lambda>stat. (KStr stat, PNone)) sts))"
    then have "map_of (dict_of (map (\<lambda>stat. (KStr stat, PNone)) sts)) k \<noteq> None"
      by (simp add: map_of_eq_None_iff)
    then show "k \<in> KStr ` set sts"
      by (simp add: map_of_dict_of map_of_const_None split: if_splits)
  qed
  then have "str_keys (dict_of (map (\<lambda>stat. (KStr stat, PNone)) sts))"
    by (auto simp: str_keys_def)
  then show ?thesis
    by (simp add: empty_stats_def Let_def str_keys_update)
qed

lemma apply_add_stats_inv:
  "apply_add_stats l masked fs = Inr fs' \<Longrightarrow> str_keys fs \<Longrightarrow> distinct (map fst fs) \<Longrightarrow>
   str_keys fs' \<and> distinct (map fst fs')"
proof (induction l arbitrary: fs)
  case Nil
  then show ?case by simp
next
  case (Cons a l)
  obtain m f where a: "a = (m, f)" by (cases a) auto
  from Cons.prems a obtain v where
    rest: "apply_add_stats l masked (AList.update (KStr m) v fs) = Inr fs'"
    by (auto split: sum.splits)
  from Cons.IH[OF rest] Cons.prems show ?case
    by (simp add: str_keys_update distinct_update)
qed

lemma map_of_prefixed:
  "str_keys fs \<Longrightarrow>
   map_of (map (\<lambda>(k, v). (KStr (p @ key_str E k), v)) fs) (KStr (p @ n)) = map_of fs (KStr n)"
proof (induction fs)
  case Nil
  then show ?case by simp
next
  case (Cons a fs)
  obtain k v where a: "a = (k, v)" by (cases a) auto
  from Cons.prems a obtain m where k: "k = KStr m" by (auto simp: str_keys_def)
  from Cons.prems have "str_keys fs" by (auto simp: str_keys_def)
  from Cons.IH[OF this] show ?case by (simp add: a k key_str_def)
qed

lemma distinct_prefixed:
  assumes "str_keys fs" and "distinct (map fst fs)"
  shows "distinct (map fst (map (\<lambda>(k, v). (KStr (p @ key_str E k), v)) fs))"
proof -
  have eq: "map fst (map (\<lambda>(k, v). (KStr (p @ key_str E k), v)) fs)
            = map (\<lambda>k. KStr (p @ key_str E k)) (map fst fs)"
    by (induction fs) auto
  have "inj_on (\<lambda>k. KStr (p @ key_str E k)) (set (map fst fs))"
  proof (rule inj_onI)
    fix x y
    assume x: "x \<in> set (map fst fs)" and y: "y \<in> set (map fst fs)"
      and e: "KStr (p @ key_str E x) = KStr (p @ key_str E y)"
    from assms(1) x obtain a where a: "x = KStr a" by (auto simp: str_keys_def)
    from assms(1) y obtain b where b: "y = KStr b" by (auto simp: str_keys_def)
    from e a b show "x = y" by (simp add: key_str_def)
  qed
  with assms(2) have "distinct (map (\<lambda>k. KStr (p @ key_str E k)) (map fst fs))"
    by (rule distinct_map[THEN iffD2, OF conjI])
  then show ?thesis by (simp only: eq)
qed

lemma map_of_add_prefix:
  assumes "str_keys fs" and "distinct (map fst fs)"
  shows "map_of (add_prefix E p fs) (KStr (p @ n)) = map_of fs (KStr n)"
  unfolding add_prefix_def map_of_dict_of
  by (simp add: map_of_rev_distinct[OF distinct_prefixed[OF assms]] map_of_prefixed[OF assms(1)])

lemma map_of_mini_raster:
  "n \<notin> {''mini_raster_array'', ''mini_raster_affine'', ''mini_raster_nodata''} \<Longrightarrow>
   map_of (mini_raster fsrc masked fs) (KStr n) = map_of fs (KStr n)"
  by (auto simp: mini_raster_def update_conv')

lemma mini_raster_inv:
  "str_keys fs \<Longrightarrow> distinct (map fst fs) \<Longrightarrow>
   str_keys (mini_raster fsrc masked fs) \<and> distinct (map fst (mini_raster fsrc masked fs))"
  by (simp add: mini_raster_def str_keys_update distinct_update)

lemma final_stats_lookup:
  assumes fin: "final_stats E C fsrc masked fs = Inr d"
    and sk: "str_keys fs" and di: "distinct (map fst fs)"
    and n1: "n \<notin> custom_names C" and n2: "n \<notin> mini_raster_names C"
  shows "map_of d (KStr (prefix_of C @ n)) = map_of fs (KStr n)"
proof -
  obtain fs1 where a: "(case add_stats C of None \<Rightarrow> Inr fs | Some l \<Rightarrow> apply_add_stats l masked fs) = Inr fs1"
    using fin by (auto simp: final_stats_def seq_def split: sum.splits)
  have inv1: "str_keys fs1 \<and> distinct (map fst fs1)" and l1: "map_of fs1 (KStr n) = map_of fs (KStr n)"
    using a sk di n1 apply_add_stats_inv apply_add_stats_keeps
    by (auto simp: custom_names_def split: option.splits)
  let ?fs2 = "if raster_out C then mini_raster fsrc masked fs1 else fs1"
  have inv2: "str_keys ?fs2" "distinct (map fst ?fs2)" and l2: "map_of ?fs2 (KStr n) = map_of fs (KStr n)"
    using inv1 l1 n2 mini_raster_inv[of fs1 fsrc masked] map_of_mini_raster[of n fsrc masked fs1]
    by (auto simp: mini_raster_names_def)
  have d: "d = (case prefix C of None \<Rightarrow> ?fs2 | Some p \<Rightarrow> add_prefix E p ?fs2)"
    using fin a by (simp add: final_stats_def output_keys_def seq_def Let_def)
  show ?thesis
  proof (cases "prefix C")
    case None
    with d l2 show ?thesis by (simp add: prefix_of_def)
  next
    case (Some p)
    with d l2 map_of_add_prefix[OF inv2, of E p n] show ?thesis by (simp add: prefix_of_def)
  qed
qed

lemma emit_yields_lookup:
  assumes "map_of d k = Some v" and "distinct (map fst d)"
  shows "\<exists>y s'. emit C r d s = (None, s') \<and> yields s' = yields s @ [y]
           \<and> map_of (yielded_dict (store s') y) k = Some v"
proof (cases "geojson_out C \<or> save_properties C")
  case False
  then have "emit C r d s = (None, s\<lparr>yields := yields s @ [YStats d]\<rparr>)"
    by (simp add: emit_def)
  with assms(1) show ?thesis by (simp add: yielded_dict_def)
next
  case True
  from assms(1) have ne: "d \<noteq> []" by auto
  from emit_merges_result_set[of C r d s] True ne obtain p h' where
    e: "emit C r d s = (None, s\<lparr>store := h',
          yields := yields s @ [if geojson_out C then YFeature r else YDict p]\<rparr>)"
    and p: "properties (feats h' r) = Some p"
    and m: "map_of (dicts h' p) = map_of (props_of (store s) r) ++ map_of (rev d)"
    by blast
  have "map_of (rev d) k = Some v"
    using assms by (simp add: map_of_rev_distinct)
  with m have l: "map_of (dicts h' p) k = Some v" by (simp add: map_add_def)
  show ?thesis
    using e p l by (simp add: yielded_dict_def props_of_def)
qed

lemma output_keys_inv:
  assumes "str_keys fs" and "distinct (map fst fs)"
  shows "distinct (map fst (output_keys E C fsrc masked fs))"
  using assms mini_raster_inv[OF assms, of fsrc masked]
  by (auto simp: output_keys_def Let_def add_prefix_def distinct_dict_of split: option.splits)

lemma final_stats_distinct:
  assumes fin: "final_stats E C fsrc masked fs = Inr d"
    and sk: "str_keys fs" and di: "distinct (map fst fs)"
  shows "distinct (map fst d)"
proof -
  obtain fs1 where a: "(case add_stats C of None \<Rightarrow> Inr fs | Some l \<Rightarrow> apply_add_stats l masked fs) = Inr fs1"
    and d: "d = output_keys E C fsrc masked fs1"
    using fin by (auto simp: final_stats_def seq_def split: sum.splits)
  have "str_keys fs1 \<and> distinct (map fst fs1)"
    using a sk di apply_add_stats_inv by (auto split: option.splits)
  with d show ?thesis by (simp add: output_keys_inv)
qed

lemma final_stats_quiet:
  assumes "\<not> custom_raises C masked"
  shows "\<exists>d. final_stats E C fsrc masked fs = Inr d"
proof (cases "add_stats C")
  case None
  then show ?thesis by (simp add: final_stats_def seq_def)
next
  case (Some l)
  with assms have "\<forall>(n, f)\<in>set l. \<not> isl (f masked)"
    by (auto simp: custom_raises_def customs_def)
  from apply_add_stats_ok[OF this, of fs] Some show ?thesis
    by (auto simp: final_stats_def seq_def)
qed

text \<open>
  C2, as stated, fails: over cells that are all nodata, with \<^verbatim>\<open>count\<close> and \<^verbatim>\<open>mean\<close>
  requested and a caller's function that is also named \<^verbatim>\<open>count\<close>, the record yielded
  holds the value of that function under \<^verbatim>\<open>count\<close>, not 0.
\<close>

theorem custom_value_overrides_empty_statistic:
  "summary (gen_zonal_stats nodata_only_env overriding_cfg [0] (test_heap [zone_polygon] True))
     = (None, [YStats [(KStr ''count'', PInt 42), (KStr ''mean'', PNone)]],
        [Open test_rast, Read 0 (0, 0, 2, 1), Rasterize 0 False])"
  by (simp add: input_defs run_defs stat_defs)

text \<open>
  C2, amended: for a feature that reaches the statistics with no surviving cell, the
  result set of lines 222-224 maps \<^verbatim>\<open>count\<close> to 0 and every other requested statistic
  to \<^verbatim>\<open>None\<close>, and nothing else; and when no caller's function raises, a record is
  yielded for the feature in which every requested statistic whose name is neither
  the name of a caller's function nor, with \<^verbatim>\<open>raster_out\<close>, one of the \<^verbatim>\<open>mini_raster\<close>
  keys has that value, under its prefixed key.
\<close>

theorem empty_zone_statistics:
  assumes reach: "feature_stats_of E C rs sts run_count touched i r s = Inr (fsrc, masked, fs, s3)"
    and empty: "compressed_of masked = []"
  shows "fs = empty_stats sts
       \<and> (\<forall>k. map_of fs k =
               (if k = KStr ''count'' \<and> ''count'' \<in> set sts then Some (PInt 0)
                else if k \<in> KStr ` set sts then Some PNone else None))
       \<and> (\<forall>n. n \<in> set sts \<and> n \<notin> custom_names C \<and> n \<notin> mini_raster_names C
                \<and> \<not> custom_raises C masked \<longrightarrow>
              (\<exists>y s'. feature_body E C rs sts run_count touched i r s = (None, s')
                 \<and> yields s' = yields s @ [y]
                 \<and> map_of (yielded_dict (store s') y) (KStr (prefix_of C @ n))
                     = Some (if n = ''count'' then PInt 0 else PNone)))"
proof (intro conjI allI impI)
  note r = feature_stats_of_reached[OF reach]
  show fs: "fs = empty_stats sts" by (rule r(5)[OF empty])
  fix k
  show "map_of fs k =
               (if k = KStr ''count'' \<and> ''count'' \<in> set sts then Some (PInt 0)
                else if k \<in> KStr ` set sts then Some PNone else None)"
    unfolding fs by (rule map_of_empty_stats)
next
  fix n
  assume a: "n \<in> set sts \<and> n \<notin> custom_names C \<and> n \<notin> mini_raster_names C
                \<and> \<not> custom_raises C masked"
  note r = feature_stats_of_reached[OF reach]
  have fs: "fs = empty_stats sts" by (rule r(5)[OF empty])
  from a final_stats_quiet obtain d where d: "final_stats E C fsrc masked fs = Inr d" by blast
  have sk: "str_keys fs" and di: "distinct (map fst fs)"
    unfolding fs by (rule str_keys_empty_stats, rule distinct_empty_stats)
  have "map_of d (KStr (prefix_of C @ n)) = map_of fs (KStr n)"
    using final_stats_lookup[OF d sk di] a by blast
  with a have l: "map_of d (KStr (prefix_of C @ n)) = Some (if n = ''count'' then PInt 0 else PNone)"
    by (auto simp: fs map_of_empty_stats)
  from emit_yields_lookup[OF l final_stats_distinct[OF d sk di], of C r s3]
  obtain y s' where "emit C r d s3 = (None, s')" "yields s' = yields s3 @ [y]"
    "map_of (yielded_dict (store s') y) (KStr (prefix_of C @ n))
       = Some (if n = ''count'' then PInt 0 else PNone)"
    by blast
  with r(1) r(2) d
  show "\<exists>y s'. feature_body E C rs sts run_count touched i r s = (None, s')
                 \<and> yields s' = yields s @ [y]
                 \<and> map_of (yielded_dict (store s') y) (KStr (prefix_of C @ n))
                     = Some (if n = ''count'' then PInt 0 else PNone)"
    by (simp add: finish_def)
qed

subsection \<open>Worked cases of the theorems above\<close>

theorem weighted_stats_force_all_touched_witness:
  "wants_weights (selection nodata_cell_env (test_cfg [''count'', ''weighted_count'']))
   \<and> all_touched (test_cfg [''count'', ''weighted_count'']) = False
   \<and> rasterize_flags (trace (snd (gen_zonal_stats nodata_cell_env
          (test_cfg [''count'', ''weighted_count'']) [0, 1]
          (test_heap [zone_polygon, zone_polygon] True)))) \<noteq> []
   \<and> False \<notin> set (rasterize_flags (trace (snd (gen_zonal_stats nodata_cell_env
          (test_cfg [''count'', ''weighted_count'']) [0, 1]
          (test_heap [zone_polygon, zone_polygon] True)))))"
proof -
  have w: "wants_weights (selection nodata_cell_env (test_cfg [''count'', ''weighted_count'']))"
    by (simp add: wants_weights_def selection_def test_cfg_def)
  from weighted_stats_force_all_touched[OF w, of "[0, 1]"
      "test_heap [zone_polygon, zone_polygon] True"]
  have "False \<notin> set (rasterize_flags (trace (snd (gen_zonal_stats nodata_cell_env
          (test_cfg [''count'', ''weighted_count'']) [0, 1]
          (test_heap [zone_polygon, zone_polygon] True)))))"
    by blast
  moreover have "rasterize_flags (trace (snd (gen_zonal_stats nodata_cell_env
          (test_cfg [''count'', ''weighted_count'']) [0, 1]
          (test_heap [zone_polygon, zone_polygon] True)))) \<noteq> []"
    by (simp add: input_defs run_defs stat_defs)
  ultimately show ?thesis
    using w by (simp add: test_cfg_def)
qed

theorem custom_statistics_on_masked_array_witness:
  "feature_stats_of nodata_cell_env counting_cfg test_rast [''count''] False False 0 0
       (test_state [zone_polygon] True)
     = Inr (row_window [5, 9999] (Some 9999), one_masked_cell, [(KStr ''count'', PInt 1)],
            (test_state [zone_polygon] True)\<lparr>trace := [Read 0 (0, 0, 2, 1), Rasterize 0 False]\<rparr>)
   \<and> map fst (the (add_stats counting_cfg)) = [''cells'', ''excluded'']
   \<and> mdata one_masked_cell = [5, 9999] \<and> compressed_of one_masked_cell = [5]
   \<and> summary (feature_body nodata_cell_env counting_cfg test_rast [''count''] False False 0 0
                (test_state [zone_polygon] True))
     = (None,
        [YStats [(KStr ''count'', PInt 1), (KStr ''cells'', PInt 2), (KStr ''excluded'', PInt 1)]],
        [Read 0 (0, 0, 2, 1), Rasterize 0 False])
   \<and> summary (features_loop nodata_cell_env breaking_cfg test_rast [''count''] False False 0
                [0, 1] (test_state [zone_polygon] True))
     = (Some (OtherError ''custom''), [], [Read 0 (0, 0, 2, 1), Rasterize 0 False])"
proof -
  let ?s = "test_state [zone_polygon] True"
  let ?s3 = "?s\<lparr>trace := [Read 0 (0, 0, 2, 1), Rasterize 0 False]\<rparr>"
  let ?good = "[(''cells'', \<lambda>m. Inr (PInt (int (length (mdata m))))),
                (''excluded'', \<lambda>m. Inr (PInt (int (length (filter id (mmask m))))))]"
  let ?bad = "[(''cells'', \<lambda>m. Inr (PInt (int (length (mdata m))))),
               (''broken'', \<lambda>m. Inl (OtherError ''custom''))]"
  have r1: "feature_stats_of nodata_cell_env counting_cfg test_rast [''count''] False False 0 0 ?s
     = Inr (row_window [5, 9999] (Some 9999), one_masked_cell, [(KStr ''count'', PInt 1)], ?s3)"
    by (simp add: input_defs run_defs stat_defs)
  have r2: "feature_stats_of nodata_cell_env breaking_cfg test_rast [''count''] False False 0 0 ?s
     = Inr (row_window [5, 9999] (Some 9999), one_masked_cell, [(KStr ''count'', PInt 1)], ?s3)"
    by (simp add: input_defs run_defs stat_defs)
  have a1: "add_stats counting_cfg = Some ?good"
    by (simp add: counting_cfg_def test_cfg_def)
  have a2: "add_stats breaking_cfg = Some ?bad"
    by (simp add: breaking_cfg_def test_cfg_def)
  have d1: "distinct (map fst ?good)" and d2: "distinct (map fst ?bad)"
    by simp_all
  have m: "mdata one_masked_cell = [5, 9999]" "compressed_of one_masked_cell = [5]"
    by (simp_all add: one_masked_cell_def compressed_of_def)
  from custom_statistics_on_masked_array[OF r1 a1 d1, of "[1]"]
  obtain fs' where
    v: "map_of fs' (KStr ''cells'') = Some (PInt 2)" "map_of fs' (KStr ''excluded'') = Some (PInt 1)"
    and b: "feature_body nodata_cell_env counting_cfg test_rast [''count''] False False 0 0 ?s
             = emit counting_cfg 0 (output_keys nodata_cell_env counting_cfg
                 (row_window [5, 9999] (Some 9999)) one_masked_cell fs') ?s3"
    by (auto simp: one_masked_cell_def)
  have y: "summary (feature_body nodata_cell_env counting_cfg test_rast [''count''] False False 0 0 ?s)
     = (None,
        [YStats [(KStr ''count'', PInt 1), (KStr ''cells'', PInt 2), (KStr ''excluded'', PInt 1)]],
        [Read 0 (0, 0, 2, 1), Rasterize 0 False])"
    by (simp add: input_defs run_defs stat_defs)
  from custom_statistics_on_masked_array[OF r2 a2 d2, of "[1]"]
  have l: "features_loop nodata_cell_env breaking_cfg test_rast [''count''] False False 0 [0, 1] ?s
             = (Some (OtherError ''custom''), ?s3)"
    by (simp add: one_masked_cell_def)
  show ?thesis
    using r1 a1 m y l by (simp add: summary_def test_state_def)
qed

theorem empty_zone_statistics_witness:
  "feature_stats_of nodata_only_env prefixed_cfg test_rast [''count'', ''mean''] False False 0 0
       (test_state [zone_polygon] True)
     = Inr (row_window [9999, 9999] (Some 9999), nodata_only,
            [(KStr ''count'', PInt 0), (KStr ''mean'', PNone)],
            (test_state [zone_polygon] True)\<lparr>trace := [Read 0 (0, 0, 2, 1), Rasterize 0 False]\<rparr>)
   \<and> compressed_of nodata_only = []
   \<and> ''mean'' \<in> set [''count'', ''mean'']
   \<and> ''mean'' \<notin> custom_names prefixed_cfg \<and> ''mean'' \<notin> mini_raster_names prefixed_cfg
   \<and> \<not> custom_raises prefixed_cfg nodata_only
   \<and> summary (feature_body nodata_only_env prefixed_cfg test_rast [''count'', ''mean''] False
                False 0 0 (test_state [zone_polygon] True))
     = (None, [YStats [(KStr ''z_count'', PInt 0), (KStr ''z_mean'', PNone)]],
        [Read 0 (0, 0, 2, 1), Rasterize 0 False])
   \<and> map_of [(KStr ''z_count'', PInt 0), (KStr ''z_mean'', PNone)]
        (KStr (prefix_of prefixed_cfg @ ''mean'')) = Some PNone"
proof -
  let ?s = "test_state [zone_polygon] True"
  let ?s3 = "?s\<lparr>trace := [Read 0 (0, 0, 2, 1), Rasterize 0 False]\<rparr>"
  have r: "feature_stats_of nodata_only_env prefixed_cfg test_rast [''count'', ''mean''] False
             False 0 0 ?s
     = Inr (row_window [9999, 9999] (Some 9999), nodata_only,
            [(KStr ''count'', PInt 0), (KStr ''mean'', PNone)], ?s3)"
    by (simp add: input_defs run_defs stat_defs)
  have c: "compressed_of nodata_only = []"
    by (simp add: compressed_of_def nodata_only_def)
  have n: "''mean'' \<notin> custom_names prefixed_cfg" "''mean'' \<notin> mini_raster_names prefixed_cfg"
    "\<not> custom_raises prefixed_cfg nodata_only" "prefix_of prefixed_cfg = ''z_''"
    by (simp_all add: custom_names_def mini_raster_names_def custom_raises_def customs_def
        prefix_of_def prefixed_cfg_def test_cfg_def)
  have y: "feature_body nodata_only_env prefixed_cfg test_rast [''count'', ''mean''] False
             False 0 0 ?s
     = (None, ?s3\<lparr>yields := [YStats [(KStr ''z_count'', PInt 0), (KStr ''z_mean'', PNone)]]\<rparr>)"
    by (simp add: input_defs run_defs stat_defs add_prefix_def key_str_def)
  from empty_zone_statistics[OF r c] n
  obtain y' s' where
    "feature_body nodata_only_env prefixed_cfg test_rast [''count'', ''mean''] False False 0 0 ?s
       = (None, s')"
    and "yields s' = yields ?s @ [y']"
    and "map_of (yielded_dict (store s') y') (KStr (prefix_of prefixed_cfg @ ''mean'')) = Some PNone"
    by force
  with y n(4) have "map_of [(KStr ''z_count'', PInt 0), (KStr ''z_mean'', PNone)]
        (KStr (prefix_of prefixed_cfg @ ''mean'')) = Some PNone"
    by (auto simp: yielded_dict_def test_state_def)
  with r c n y show ?thesis
    by (simp add: summary_def test_state_def)
qed

subsection \<open>Where the function departs from its description\<close>

text \<open>The handlers of lines 170, 182, 201, 214 and 239 skip the feature and go on.\<close>

lemma skip_feature_continues:
  "properties (feats (store s) r) = Some p \<Longrightarrow>
   skip_feature msg r s
     = (None, s\<lparr>trace := trace s @ [Print msg, PrintProps (dicts (store s) p)]\<rparr>)"
  by (simp add: skip_feature_def)

lemma caught_memory_errors:
  "rast_read E rs (gbounds (geometry (feats (store s) r))) = Inl MemoryError \<Longrightarrow>
   \<not> str_contains (gtype (geometry (feats (store s) r))) ''Point'' \<Longrightarrow>
   window_stage E rs i r s
     = Inl (skip_feature ''Memory Error (fsrc): \<newline>'' r
              (s\<lparr>trace := trace s @ [Read i (gbounds (geometry (feats (store s) r)))]\<rparr>))"
  "rasterize_geom E geom fsrc touched = Inl MemoryError \<Longrightarrow>
   rasterize_stage E touched i r geom fsrc s
     = Inl (skip_feature ''Memory Error (rv_array): \<newline>'' r
              (s\<lparr>trace := trace s @ [Rasterize i touched]\<rparr>))"
  "\<not> (''nodata'' \<in> set sts \<and> np_alloc_fails E i AtNodataStat) \<Longrightarrow>
   np_alloc_fails E i AtMasked \<Longrightarrow>
   mask_stage E sts i r fsrc rv_array s = Inl (skip_feature ''Memory Error (masked): \<newline>'' r s)"
  "\<not> (''nodata'' \<in> set sts \<and> np_alloc_fails E i AtNodataStat) \<Longrightarrow>
   \<not> np_alloc_fails E i AtMasked \<Longrightarrow> np_alloc_fails E i AtCompressed \<Longrightarrow>
   mask_stage E sts i r fsrc rv_array s
     = Inl (skip_feature ''Memory Error (compressed): \<newline>'' r s)"
  "compressed_of masked \<noteq> [] \<Longrightarrow> weights s \<Longrightarrow>
   rasterize_pctcover E geom (w_affine fsrc) (w_shape fsrc) = Inl MemoryError \<Longrightarrow>
   stats_stage E C sts run_count r geom fsrc masked fs0 s
     = Inl (skip_feature ''Memory Error (pctcover): \<newline>'' r s)"
  by (auto simp: window_stage_def rasterize_stage_def mask_stage_def stats_stage_def Let_def)

lemma skipped_feature_is_left_out:
  "feature_stats_of E C rs sts run_count touched i r s = Inl (None, s1) \<Longrightarrow>
   features_loop E C rs sts run_count touched i (r # rest) s
     = features_loop E C rs sts run_count touched (Suc i) rest s1"
  by (simp add: feature_body_def)

lemma masked_memory_error_is_skipped:
  "summary (gen_zonal_stats oom_at_masked_env (test_cfg [''nodata'', ''count'']) [0, 1]
              (test_heap [zone_polygon, zone_polygon] True))
     = (None, [YStats [(KStr ''nodata'', PFloat 0), (KStr ''count'', PInt 3)]],
        [Open test_rast, Read 0 (0, 0, 2, 1), Rasterize 0 False,
         Print ''Memory Error (masked): \<newline>'', PrintProps [(KStr ''id'', PInt 0)],
         Read 1 (0, 0, 2, 1), Rasterize 1 False])"
  by (simp add: input_defs run_defs stat_defs)

text \<open>
  C1 says that a memory error at the masking step skips the feature and lets the run
  go on.  The masking step also builds the masked array of lines 188-189 when
  \<^verbatim>\<open>nodata\<close> is requested, and those lines stand outside every \<^verbatim>\<open>try\<close>: when numpy runs
  out of memory there for the first of two features, the run stops with
  \<^verbatim>\<open>MemoryError\<close>, nothing is yielded and the second feature is never read.
\<close>

theorem nodata_mask_memory_error_aborts_run:
  "summary (gen_zonal_stats oom_at_nodata_env (test_cfg [''nodata'', ''count'']) [0, 1]
              (test_heap [zone_polygon, zone_polygon] True))
     = (Some MemoryError, [],
        [Open test_rast, Read 0 (0, 0, 2, 1), Rasterize 0 False])"
  by (simp add: input_defs run_defs stat_defs)

text \<open>Once \<^verbatim>\<open>weights\<close> is false it stays false: nothing in the loop sets it again.\<close>

lemma skip_feature_weights [simp]: "weights (snd (skip_feature m r s)) = weights s"
  by (simp add: skip_feature_def Let_def split: option.splits)

lemma emit_weights [simp]: "weights (snd (emit C r fs s)) = weights s"
  by (simp add: emit_def Let_def split: option.splits)

lemma finish_weights [simp]: "weights (snd (finish E C r fsrc masked fs s)) = weights s"
  by (simp add: finish_def split: sum.splits)

lemma window_stage_weights:
  "window_stage E rs i r s = Inl out \<Longrightarrow> weights (snd out) \<Longrightarrow> weights s"
  "window_stage E rs i r s = Inr (geom, fsrc, s1) \<Longrightarrow> weights s1 \<Longrightarrow> weights s"
  by (auto simp: window_stage_def Let_def split: sum.splits if_splits)

lemma rasterize_stage_weights:
  "rasterize_stage E touched i r geom fsrc s = Inl out \<Longrightarrow> weights (snd out) = weights s"
  "rasterize_stage E touched i r geom fsrc s = Inr (rv, s1) \<Longrightarrow> weights s1 = weights s"
  by (auto simp: rasterize_stage_def Let_def split: sum.splits if_splits)

lemma mask_stage_weights:
  "mask_stage E sts i r fsrc rv s = Inl out \<Longrightarrow> weights (snd out) = weights s"
  by (auto simp: mask_stage_def split: if_splits)

lemma stats_stage_weights:
  "stats_stage E C sts run_count r geom fsrc masked fs0 s = Inl out \<Longrightarrow>
     weights (snd out) = weights s"
  "stats_stage E C sts run_count r geom fsrc masked fs0 s = Inr (fs, s1) \<Longrightarrow>
     weights s1 = weights s"
  by (auto simp: stats_stage_def Let_def split: if_splits sum.splits)

lemma feature_body_weights:
  "weights (snd (feature_body E C rs sts run_count touched i r s)) \<Longrightarrow> weights s"
  by (cases rule: feature_body_cases[of E rs i r s C sts run_count touched])
    (auto dest: window_stage_weights simp: rasterize_stage_weights mask_stage_weights
      stats_stage_weights)

lemma features_loop_weights:
  "weights (snd (features_loop E C rs sts run_count touched i vs s)) \<Longrightarrow> weights s"
proof (induction vs arbitrary: i s)
  case Nil
  then show ?case by simp
next
  case (Cons r vs)
  obtain e s1 where fb: "feature_body E C rs sts run_count touched i r s = (e, s1)"
    by (cases "feature_body E C rs sts run_count touched i r s") auto
  have "weights s1"
  proof (cases e)
    case None
    with fb Cons.prems Cons.IH[of "Suc i" s1] show ?thesis by simp
  next
    case (Some a)
    with fb Cons.prems show ?thesis by simp
  qed
  with fb feature_body_weights[of E C rs sts run_count touched i r s] show ?case by simp
qed

lemma polygon_alone_gets_weighted_count:
  "summary (gen_zonal_stats point_then_polygon_env (test_cfg [''count'', ''weighted_count''])
              [1] (test_heap [zone_point, zone_polygon] True))
     = (None, [YStats [(KStr ''weighted_count'', PFloat 3), (KStr ''count'', PInt 3)]],
        [Open test_rast, Read 0 (0, 0, 2, 1), Rasterize 0 True])"
  by (simp add: input_defs run_defs stat_defs)

text \<open>
  C4 says that a point feature gets no weighted statistic and that the features
  after it still get theirs.  The assignment \<^verbatim>\<open>weights = False\<close> of line 157 is never
  undone, and lines 244-249 read \<^verbatim>\<open>pctcover\<close> whenever a weighted statistic is
  selected: after a point over a nodata cell, the polygon that follows stops the run
  with \<^verbatim>\<open>UnboundLocalError\<close>; and a single point over valid cells stops it at once.
\<close>

theorem point_feature_disables_weights_for_later_features:
  "summary (gen_zonal_stats point_then_polygon_env (test_cfg [''count'', ''weighted_count''])
              [0, 1] (test_heap [zone_point, zone_polygon] True))
     = (Some UnboundLocalError,
        [YStats [(KStr ''count'', PInt 0), (KStr ''weighted_count'', PNone)]],
        [Open test_rast, Read 0 (5, 1 / 2, 5, 1 / 2), Rasterize 0 True,
         Read 1 (0, 0, 2, 1), Rasterize 1 True])
   \<and> summary (gen_zonal_stats plain_env (test_cfg [''count'', ''weighted_count''])
                [0] (test_heap [zone_point] True))
     = (Some UnboundLocalError, [],
        [Open test_rast, Read 0 (5, 1 / 2, 5, 1 / 2), Rasterize 0 True])"
  by (simp add: input_defs run_defs stat_defs)

text \<open>
  What line 247 computes is the sum of the weights of all cells of the window, which
  lies between 0 and the number of those cells.
\<close>

lemma sum_list_unit_weights:
  "\<forall>w\<in>set ws. 0 \<le> w \<and> w \<le> (1::real) \<Longrightarrow> 0 \<le> sum_list ws \<and> sum_list ws \<le> real (length ws)"
  by (induction ws) auto

lemma weighted_count_bounds:
  assumes "\<forall>w\<in>set (dat p). 0 \<le> w \<and> w \<le> 1"
  shows "weighted_count (Some p) = Inr (PFloat (sum_list (dat p)))"
    and "0 \<le> sum_list (dat p)" and "sum_list (dat p) \<le> real (length (dat p))"
  using sum_list_unit_weights[OF assms] by (simp_all add: weighted_count_def)

text \<open>The weighted sum and the weighted mean leave the nodata cell out.\<close>

lemma weighted_sum_excludes_nodata_cell:
  "summary (gen_zonal_stats nodata_cell_env (test_cfg [''weighted_sum'', ''weighted_mean''])
              [0] (test_heap [zone_polygon] True))
     = (None, [YStats [(KStr ''weighted_mean'', PFloat 5), (KStr ''weighted_sum'', PFloat 5)]],
        [Open test_rast, Read 0 (0, 0, 2, 1), Rasterize 0 True])"
  by (simp add: input_defs run_defs stat_defs ma_times_def unmasked_weight_def ma_sum_def
      bcast_def bdim_def grid_def cell_def)

text \<open>
  C5 says that \<^verbatim>\<open>weighted_count\<close> sums the weights of the surviving cells only and
  so is at most \<^verbatim>\<open>count\<close>.  Line 247 sums the whole of \<^verbatim>\<open>pctcover\<close>: over a valid cell
  and a nodata cell, both fully covered, \<^verbatim>\<open>count\<close> is 1 and \<^verbatim>\<open>weighted_count\<close> is 2.
\<close>

theorem weighted_count_includes_excluded_cells:
  "summary (gen_zonal_stats nodata_cell_env (test_cfg [''count'', ''weighted_count''])
              [0] (test_heap [zone_polygon] True))
     = (None, [YStats [(KStr ''weighted_count'', PFloat 2), (KStr ''count'', PInt 1)]],
        [Open test_rast, Read 0 (0, 0, 2, 1), Rasterize 0 True])"
  by (simp add: input_defs run_defs stat_defs)

text \<open>Without entries named \<^verbatim>\<open>min\<close> and \<^verbatim>\<open>max\<close>, and with the computed ones, the range is right.\<close>

lemma range_stat_fresh:
  "map_of fs (KStr ''min'') = None \<Longrightarrow> map_of fs (KStr ''max'') = None \<Longrightarrow>
   range_stat fs xs = Inr (PFloat (np_max xs - np_min xs))"
  by (simp add: range_stat_def)

lemma range_stat_reused:
  "map_of fs (KStr ''min'') = Some (PFloat (np_min xs)) \<Longrightarrow>
   map_of fs (KStr ''max'') = Some (PFloat (np_max xs)) \<Longrightarrow>
   range_stat fs xs = Inr (PFloat (np_max xs - np_min xs))"
  by (simp add: range_stat_def)

text \<open>
  Outside categorical mode the result set holds no entry named \<^verbatim>\<open>min\<close> or \<^verbatim>\<open>max\<close> but
  the statistics themselves, and the range reported is the largest surviving value
  minus the smallest.
\<close>

lemma put_if_other:
  "put_if c k v fs = Inr fs' \<Longrightarrow> k' \<noteq> k \<Longrightarrow> map_of fs' k' = map_of fs k'"
  by (auto simp: put_if_def seq_def update_conv' split: if_splits sum.splits)

lemma put_if_same:
  "put_if c k v fs = Inr fs' \<Longrightarrow>
   map_of fs' k = (if c then (case v of Inr x \<Rightarrow> Some x | Inl e \<Rightarrow> None) else map_of fs k)"
  by (auto simp: put_if_def seq_def update_conv' split: if_splits sum.splits)

lemma percentile_stats_other:
  "percentile_stats gp ps xs fs = Inr fs' \<Longrightarrow> n \<notin> set ps \<Longrightarrow>
   map_of fs' (KStr n) = map_of fs (KStr n)"
proof (induction ps arbitrary: fs)
  case Nil
  then show ?case by simp
next
  case (Cons p ps)
  from Cons.prems obtain q where
    rest: "percentile_stats gp ps xs (AList.update (KStr p) (PFloat (np_percentile xs q)) fs) = Inr fs'"
    by (auto split: sum.splits)
  from Cons.prems have "n \<noteq> p" "n \<notin> set ps" by auto
  with Cons.IH[OF rest] show ?case by (simp add: update_conv')
qed

lemma seq_Inr: "seq m f = Inr y \<Longrightarrow> \<exists>x. m = Inr x \<and> f x = Inr y"
  by (cases m) (auto simp: seq_def)

lemma range_is_max_minus_min:
  assumes run: "populated_stats E sts run_count False cm masked xs pc fs0 = Inr fs"
    and req: "''range'' \<in> set sts"
    and clean: "map_of fs0 (KStr ''min'') = None" "map_of fs0 (KStr ''max'') = None"
  shows "map_of fs (KStr ''range'') = Some (PFloat (np_max xs - np_min xs))"
proof -
  from run obtain f1 f2 f3 f4 f5 f6 f7 f8 f9 f10 f11 f12 f13 f14 where
    s1: "put_if (''weighted_mean'' \<in> set sts) (KStr ''weighted_mean'') (weighted_mean masked pc) fs0 = Inr f1"
    and s2: "put_if (''weighted_count'' \<in> set sts) (KStr ''weighted_count'') (weighted_count pc) f1 = Inr f2"
    and s3: "put_if (''weighted_sum'' \<in> set sts) (KStr ''weighted_sum'') (weighted_sum masked pc) f2 = Inr f3"
    and s4: "put_if (''mean'' \<in> set sts) (KStr ''mean'') (Inr (PFloat (np_mean xs))) f3 = Inr f4"
    and s5: "put_if (''count'' \<in> set sts) (KStr ''count'') (Inr (PInt (int (length xs)))) f4 = Inr f5"
    and s6: "put_if (''sum'' \<in> set sts) (KStr ''sum'') (Inr (PFloat (sum_list xs))) f5 = Inr f6"
    and s7: "put_if (''min'' \<in> set sts) (KStr ''min'') (Inr (PFloat (np_min xs))) f6 = Inr f7"
    and s8: "put_if (''max'' \<in> set sts) (KStr ''max'') (Inr (PFloat (np_max xs))) f7 = Inr f8"
    and s9: "put_if (''std'' \<in> set sts) (KStr ''std'') (Inr (PFloat (np_std (np_sqrt E) xs))) f8 = Inr f9"
    and s10: "put_if (''median'' \<in> set sts) (KStr ''median'') (Inr (PFloat (np_median xs))) f9 = Inr f10"
    and s11: "put_if (''majority'' \<in> set sts) (KStr ''majority'')
               (with_pixel_count (if run_count then Some (np_unique_counts xs) else None)
                  (\<lambda>pc. PFloat (key_assoc_val pc max))) f10 = Inr f11"
    and s12: "put_if (''minority'' \<in> set sts) (KStr ''minority'')
               (with_pixel_count (if run_count then Some (np_unique_counts xs) else None)
                  (\<lambda>pc. PFloat (key_assoc_val pc min))) f11 = Inr f12"
    and s13: "put_if (''unique'' \<in> set sts) (KStr ''unique'')
               (with_pixel_count (if run_count then Some (np_unique_counts xs) else None)
                  (\<lambda>pc. PInt (int (length pc)))) f12 = Inr f13"
    and s14: "put_if (''range'' \<in> set sts) (KStr ''range'') (range_stat f13 xs) f13 = Inr f14"
    and s15: "percentile_stats (get_percentile E) (filter (\<lambda>s. startswith s ''percentile_'') sts)
                xs f14 = Inr fs"
    unfolding populated_stats_def Let_def
    by (simp only: simp_thms if_False) (blast dest!: seq_Inr)
  have min7: "map_of f7 (KStr ''min'')
                = (if ''min'' \<in> set sts then Some (PFloat (np_min xs)) else None)"
    using put_if_same[OF s7] put_if_other[OF s6] put_if_other[OF s5] put_if_other[OF s4]
      put_if_other[OF s3] put_if_other[OF s2] put_if_other[OF s1] clean(1) by simp
  have max7: "map_of f7 (KStr ''max'') = None"
    using put_if_other[OF s7] put_if_other[OF s6] put_if_other[OF s5] put_if_other[OF s4]
      put_if_other[OF s3] put_if_other[OF s2] put_if_other[OF s1] clean(2) by simp
  have min13: "map_of f13 (KStr ''min'')
                = (if ''min'' \<in> set sts then Some (PFloat (np_min xs)) else None)"
    using min7 put_if_other[OF s8] put_if_other[OF s9] put_if_other[OF s10]
      put_if_other[OF s11] put_if_other[OF s12] put_if_other[OF s13] by simp
  have max13: "map_of f13 (KStr ''max'')
                = (if ''max'' \<in> set sts then Some (PFloat (np_max xs)) else None)"
    using max7 put_if_same[OF s8] put_if_other[OF s9] put_if_other[OF s10]
      put_if_other[OF s11] put_if_other[OF s12] put_if_other[OF s13] by simp
  have r: "range_stat f13 xs = Inr (PFloat (np_max xs - np_min xs))"
    by (simp add: range_stat_def min13 max13)
  have "map_of f14 (KStr ''range'') = Some (PFloat (np_max xs - np_min xs))"
    using put_if_same[OF s14] req r by simp
  moreover have "''range'' \<notin> set (filter (\<lambda>s. startswith s ''percentile_'') sts)"
    by (simp add: startswith_def)
  ultimately show ?thesis
    using percentile_stats_other[OF s15] by simp
qed


text \<open>
  C6 says that \<^verbatim>\<open>range\<close> is \<^verbatim>\<open>max - min\<close> of the surviving values.  Lines 271-278 take
  whatever the result set holds under \<^verbatim>\<open>min\<close> and \<^verbatim>\<open>max\<close>, and in categorical mode the
  result set holds the histogram under the caller's labels: with the value 1
  labelled \<^verbatim>\<open>min\<close>, over the values 1, 1 and 5, the range reported is 5 minus the
  count of the value 1, that is 3, while the largest value minus the smallest is 4.
\<close>

theorem range_reuses_category_named_min:
  "summary (gen_zonal_stats plain_env labelled_min_cfg [0] (test_heap [zone_polygon] True))
     = (None,
        [YStats [(KStr ''min'', PInt 2), (KNum 5, PInt 1), (KStr ''range'', PFloat 3)]],
        [Open test_rast, Read 0 (0, 0, 2, 1), Rasterize 0 False])
   \<and> compressed_of surviving_cells = [1, 1, 5]
   \<and> np_max [1, 1, 5] - np_min [1, 1, 5] = 4"
  by (simp add: input_defs run_defs stat_defs)

text \<open>
  C10 says that with \<^verbatim>\<open>geojson_out\<close> or \<^verbatim>\<open>save_properties\<close> a \<^verbatim>\<open>properties\<close> mapping is
  created on the feature if absent and that the feature or that mapping is yielded.
  The test of line 305 stands inside the loop over the items of the result set, so
  with an empty result set (a categorical run with no statistic selected, over cells
  that are all nodata) it is never made: for a feature without a \<^verbatim>\<open>properties\<close> key,
  \<^verbatim>\<open>save_properties\<close> stops the run with the \<^verbatim>\<open>KeyError\<close> of line 312, and \<^verbatim>\<open>geojson_out\<close>
  yields the feature with still no \<^verbatim>\<open>properties\<close>.
\<close>

theorem no_properties_created_without_statistics:
  "summary (gen_zonal_stats nodata_only_env empty_save_cfg [0] (test_heap [zone_polygon] False))
     = (Some KeyError, [], [Open test_rast, Read 0 (0, 0, 2, 1), Rasterize 0 False])
   \<and> summary (gen_zonal_stats nodata_only_env empty_geojson_cfg [0]
                (test_heap [zone_polygon] False))
     = (None, [YFeature 0], [Open test_rast, Read 0 (0, 0, 2, 1), Rasterize 0 False])
   \<and> properties (feats (store (snd (gen_zonal_stats nodata_only_env empty_geojson_cfg [0]
                                      (test_heap [zone_polygon] False)))) 0) = None
   \<and> properties (feats (test_heap [zone_polygon] False) 0) = None"
  by (simp add: input_defs run_defs stat_defs)

end
